theory Spec2Isabelle
  imports Main
begin

section \<open>Python values, exceptions and the environment\<close>

text \<open>
  The scripts \<^verbatim>\<open>archinstall/scripts/guided.py\<close> and
  \<^verbatim>\<open>examples/interactive_installation.py\<close> read the installation plan from the
  untyped dictionary \<^verbatim>\<open>archinstall.arguments\<close>, and
  \<^verbatim>\<open>archinstall/lib/hardware.py\<close> reads the machine through pseudo-files and
  external utilities. The embedding keeps the dictionary dynamic: a value is a
  \<open>pyval\<close>, a failing operation returns the Python exception as \<open>Inl\<close>.
\<close>

datatype py_error =
    KeyError string
  | AttributeError string
  | TypeError
  | ValueError
  | IndexError
  | FileNotFoundError string
  | SysCallError string

text \<open>
  Modelled from the spec: the enumerations \<^verbatim>\<open>disk.DiskLayoutType\<close>,
  \<^verbatim>\<open>disk.EncryptionType\<close> and \<^verbatim>\<open>Bootloader\<close> are declared outside the
  sources at hand, which name only the members \<^verbatim>\<open>Pre_mount\<close>,
  \<^verbatim>\<open>NoEncryption\<close> and \<^verbatim>\<open>Grub\<close>. The spec gives the disk configuration a
  mode "fresh layout vs. pre-mounted", the encryption "NoEncryption or a keyed scheme"
  and the bootloader an enum; the members the sources do not name are kept generic.
\<close>

datatype DiskLayoutType = Fresh_layout | Pre_mount

datatype EncryptionType = NoEncryption | Keyed_scheme

datatype Bootloader = Grub | Other_bootloader string

text \<open>
  The values the dictionary can hold. \<open>DiskLayoutConfiguration t\<close> is an object
  whose attribute \<^verbatim>\<open>config_type\<close> is \<open>t\<close>, \<open>DiskEncryption t\<close> one whose
  attribute \<^verbatim>\<open>encryption_type\<close> is \<open>t\<close>, \<open>ProfileConfiguration\<close> one
  with a \<^verbatim>\<open>profile\<close> attribute, \<open>PyPath\<close> a \<^verbatim>\<open>pathlib.Path\<close> and
  \<open>PyObject\<close> any other object (a user list entry, a network configuration).
  Every comparison of the sources is against a string literal or an enum member, where
  Python's \<^verbatim>\<open>==\<close> agrees with equality of \<open>pyval\<close>.
\<close>

datatype pyval =
    PyNone
  | PyBool bool
  | PyInt int
  | PyStr string
  | PyList "pyval list"
  | PyDict "(string \<times> pyval) list"
  | PyPath string
  | PyBootloader Bootloader
  | DiskLayoutConfiguration DiskLayoutType
  | DiskEncryption EncryptionType
  | ProfileConfiguration
  | PyObject string

type_synonym arguments = "string \<Rightarrow> pyval option"

text \<open>Truth value of a Python object in a condition.\<close>

fun py_truthy :: "pyval \<Rightarrow> bool" where
  "py_truthy PyNone = False"
| "py_truthy (PyBool b) = b"
| "py_truthy (PyInt i) = (i \<noteq> 0)"
| "py_truthy (PyStr s) = (s \<noteq> [])"
| "py_truthy (PyList xs) = (xs \<noteq> [])"
| "py_truthy (PyDict kvs) = (kvs \<noteq> [])"
| "py_truthy _ = True"

text \<open>\<^verbatim>\<open>d.get(key, default)\<close> and \<^verbatim>\<open>d[key]\<close>.\<close>

definition dict_get :: "arguments \<Rightarrow> string \<Rightarrow> pyval \<Rightarrow> pyval" where
  "dict_get d key dflt = (case d key of None \<Rightarrow> dflt | Some v \<Rightarrow> v)"

definition dict_index :: "arguments \<Rightarrow> string \<Rightarrow> py_error + pyval" where
  "dict_index d key = (case d key of None \<Rightarrow> Inl (KeyError key) | Some v \<Rightarrow> Inr v)"

fun is_substring :: "string \<Rightarrow> string \<Rightarrow> bool" where
  "is_substring s [] = (s = [])"
| "is_substring s (c # cs) = (take (length s) (c # cs) = s \<or> is_substring s cs)"

text \<open>\<^verbatim>\<open>'name' in container\<close>: membership in a list, substring of a string, key of a
  dictionary; any other value is not iterable.\<close>

fun py_contains :: "string \<Rightarrow> pyval \<Rightarrow> py_error + bool" where
  "py_contains s (PyList xs) = Inr (PyStr s \<in> set xs)"
| "py_contains s (PyStr t) = Inr (is_substring s t)"
| "py_contains s (PyDict kvs) = Inr (s \<in> set (map fst kvs))"
| "py_contains s _ = Inl TypeError"

text \<open>\<^verbatim>\<open>container[0]\<close>. A truthy list or string has a first element; a dictionary is
  keyed by strings here, so the key \<^verbatim>\<open>0\<close> is missing.\<close>

fun py_index0 :: "pyval \<Rightarrow> py_error + pyval" where
  "py_index0 (PyList (x # xs)) = Inr x"
| "py_index0 (PyList []) = Inl IndexError"
| "py_index0 (PyStr (c # cs)) = Inr (PyStr [c])"
| "py_index0 (PyStr []) = Inl IndexError"
| "py_index0 (PyDict kvs) = Inl (KeyError ''0'')"
| "py_index0 _ = Inl TypeError"

fun py_len :: "pyval \<Rightarrow> py_error + nat" where
  "py_len (PyStr s) = Inr (length s)"
| "py_len (PyList xs) = Inr (length xs)"
| "py_len (PyDict kvs) = Inr (length kvs)"
| "py_len _ = Inl TypeError"

text \<open>Attribute reads used by the scripts.\<close>

fun config_type :: "pyval \<Rightarrow> py_error + DiskLayoutType" where
  "config_type (DiskLayoutConfiguration t) = Inr t"
| "config_type _ = Inl (AttributeError ''config_type'')"

fun encryption_type :: "pyval \<Rightarrow> py_error + EncryptionType" where
  "encryption_type (DiskEncryption t) = Inr t"
| "encryption_type _ = Inl (AttributeError ''encryption_type'')"

fun profile_attr :: "pyval \<Rightarrow> py_error + unit" where
  "profile_attr ProfileConfiguration = Inr ()"
| "profile_attr _ = Inl (AttributeError ''profile'')"

subsection \<open>Strings\<close>

text \<open>Characters are code points below 256. \<^verbatim>\<open>str.strip()\<close> removes the characters
  for which \<^verbatim>\<open>str.isspace()\<close> holds.\<close>

definition whitespace :: "char list" where
  "whitespace = [CHR 0x09, CHR 0x0A, CHR 0x0B, CHR 0x0C, CHR 0x0D, CHR 0x1C, CHR 0x1D,
     CHR 0x1E, CHR 0x1F, CHR '' '', CHR 0x85, CHR 0xA0]"

definition is_space :: "char \<Rightarrow> bool" where
  "is_space c = (c \<in> set whitespace)"

definition strip_where :: "(char \<Rightarrow> bool) \<Rightarrow> string \<Rightarrow> string" where
  "strip_where P s = rev (dropWhile P (rev (dropWhile P s)))"

definition strip :: "string \<Rightarrow> string" where
  "strip s = strip_where is_space s"

definition strip_chars :: "string \<Rightarrow> string \<Rightarrow> string" where
  "strip_chars cs s = strip_where (\<lambda>c. c \<in> set cs) s"

text \<open>A file opened in text mode is read with universal newlines: a carriage return,
  alone or followed by a line feed, ends a line like a line feed and is delivered as
  one. Iterating the file yields the lines of that text, each with its line feed.\<close>

fun universal_newlines :: "string \<Rightarrow> string" where
  "universal_newlines [] = []"
| "universal_newlines [c] = (if c = CHR 0x0D then [CHR 0x0A] else [c])"
| "universal_newlines (c # d # cs) =
     (if c = CHR 0x0D \<and> d = CHR 0x0A then CHR 0x0A # universal_newlines cs
      else if c = CHR 0x0D then CHR 0x0A # universal_newlines (d # cs)
      else c # universal_newlines (d # cs))"

fun file_lines :: "string \<Rightarrow> string list" where
  "file_lines [] = []"
| "file_lines (c # cs) =
     (if c = CHR 0x0A then [c] # file_lines cs
      else (case file_lines cs of [] \<Rightarrow> [[c]] | l # ls \<Rightarrow> (c # l) # ls))"

text \<open>\<^verbatim>\<open>s.split(sep)\<close> for a one-character separator, and
  \<^verbatim>\<open>s.split(sep, maxsplit=1)\<close>.\<close>

fun split_where :: "(char \<Rightarrow> bool) \<Rightarrow> string \<Rightarrow> string list" where
  "split_where P [] = [[]]"
| "split_where P (c # cs) =
     (if P c then [] # split_where P cs
      else (case split_where P cs of [] \<Rightarrow> [[c]] | p # ps \<Rightarrow> (c # p) # ps))"

definition split_on :: "char \<Rightarrow> string \<Rightarrow> string list" where
  "split_on sep s = split_where (\<lambda>c. c = sep) s"

fun split_once :: "char \<Rightarrow> string \<Rightarrow> string list" where
  "split_once sep [] = [[]]"
| "split_once sep (c # cs) =
     (if c = sep then [[], cs]
      else (case split_once sep cs of [] \<Rightarrow> [[c]] | p # ps \<Rightarrow> (c # p) # ps))"

text \<open>\<^verbatim>\<open>s.split()\<close>: the words between runs of whitespace.\<close>

definition split_ws :: "string \<Rightarrow> string list" where
  "split_ws s = filter (\<lambda>w. w \<noteq> []) (split_where is_space s)"

text \<open>\<^verbatim>\<open>key, value = parts\<close>: unpacking into two names needs exactly two parts.\<close>

definition unpack2 :: "'a list \<Rightarrow> py_error + ('a \<times> 'a)" where
  "unpack2 xs = (case xs of [a, b] \<Rightarrow> Inr (a, b) | _ \<Rightarrow> Inl ValueError)"

text \<open>\<^verbatim>\<open>int(s)\<close> in base ten on a word without whitespace: an optional sign, then
  digits, single underscores allowed between digits.\<close>

definition is_digit :: "char \<Rightarrow> bool" where
  "is_digit c = (c \<in> set ''0123456789'')"

definition digit_val :: "char \<Rightarrow> nat" where
  "digit_val c = length (takeWhile (\<lambda>d. d \<noteq> c) ''0123456789'')"

fun valid_digits :: "string \<Rightarrow> bool" where
  "valid_digits [] = False"
| "valid_digits [c] = is_digit c"
| "valid_digits (c # d # cs) =
     (is_digit c \<and> (if d = CHR ''_'' then valid_digits cs else valid_digits (d # cs)))"

definition digits_value :: "string \<Rightarrow> nat" where
  "digits_value ds = foldl (\<lambda>n c. 10 * n + digit_val c) 0 (filter is_digit ds)"

definition py_int :: "string \<Rightarrow> py_error + int" where
  "py_int s =
     (case s of
        [] \<Rightarrow> Inl ValueError
      | c # cs \<Rightarrow>
          if c = CHR ''-'' then (if valid_digits cs then Inr (- int (digits_value cs)) else Inl ValueError)
          else if c = CHR ''+'' then (if valid_digits cs then Inr (int (digits_value cs)) else Inl ValueError)
          else (if valid_digits s then Inr (int (digits_value s)) else Inl ValueError))"

text \<open>\<^verbatim>\<open>bytes.lower()\<close> changes the ASCII capitals only.\<close>

definition lower_char :: "char \<Rightarrow> char" where
  "lower_char c =
     (case map_of (zip ''ABCDEFGHIJKLMNOPQRSTUVWXYZ'' ''abcdefghijklmnopqrstuvwxyz'') c of
        None \<Rightarrow> c | Some l \<Rightarrow> l)"

definition lower_bytes :: "string \<Rightarrow> string" where
  "lower_bytes s = map lower_char s"

text \<open>\<^verbatim>\<open>os.path.join(a, b)\<close> of the POSIX path module: both components are strings
  or paths, an absolute second component replaces the first.\<close>

fun fspath :: "pyval \<Rightarrow> py_error + string" where
  "fspath (PyStr s) = Inr s"
| "fspath (PyPath s) = Inr s"
| "fspath _ = Inl TypeError"

definition path_join :: "pyval \<Rightarrow> pyval \<Rightarrow> py_error + string" where
  "path_join a b =
     (case fspath a of
        Inl e \<Rightarrow> Inl e
      | Inr p \<Rightarrow>
          (case fspath b of
             Inl e \<Rightarrow> Inl e
           | Inr q \<Rightarrow>
               if take 1 q = ''/'' then Inr q
               else if p = [] \<or> last p = CHR ''/'' then Inr (p @ q)
               else Inr (p @ ''/'' @ q)))"

subsection \<open>Observable actions and the environment\<close>

text \<open>
  What a run does is the list of calls it makes to its collaborators, in order. The
  three calls of \<^verbatim>\<open>add_additional_packages\<close> are told apart by their place in the
  source: the bootloader prerequisite, the plan's package list and the audio server.
  \<open>Partition_and_format\<close> is the work inside
  \<^verbatim>\<open>FilesystemHandler.perform_filesystem_operations\<close>.
\<close>

datatype call_site = Bootloader_prerequisite | Plan_packages | Audio_server

datatype event =
    Print string
  | Info string
  | Debug string
  | Check_mirror_reachable bool
  | GlobalMenu_run "(string \<times> bool) list"
  | ConfigurationOutput_show
  | ConfigurationOutput_save
  | Input_prompt string
  | Perform_filesystem_operations pyval pyval
  | Partition_and_format
  | Installer_enter pyval pyval pyval pyval
  | Installer_exit
  | Mount_ordered_layout
  | Sanity_check
  | Generate_key_files
  | Use_mirrors pyval
  | Minimal_installation bool bool pyval "string list"
  | Set_mirrors pyval
  | Setup_swap string
  | Add_additional_packages call_site pyval
  | Add_bootloader pyval
  | Config_installer pyval pyval
  | Create_users pyval
  | PipewireProfile_install
  | Install_profile_config pyval
  | Set_timezone pyval
  | Activate_time_syncronization
  | Enable_espeakup
  | User_set_pw string pyval
  | Set_keyboard_language pyval
  | Profile_post_install
  | Enable_service pyval
  | Run_custom_user_commands pyval
  | Genfstab
  | Menu_run string
  | Drop_to_shell

text \<open>
  The machine and the collaborators outside the sources, as parameters: the text files
  and directories of the file system, the outcome of an external utility (\<open>Inl\<close> the
  message of the \<^verbatim>\<open>SysCallError\<close> it raises, \<open>Inr\<close> its output), what
  \<^verbatim>\<open>check_mirror_reachable()\<close> returns, the dictionary \<^verbatim>\<open>archinstall.storage\<close>,
  what the global menu stores into the arguments, the answers of
  \<^verbatim>\<open>accessibility_tools_in_use()\<close> and of the final yes/no menu, the text of
  \<^verbatim>\<open>disk.disk_layouts()\<close>, and Python's own \<^verbatim>\<open>str()\<close> of a value that is not a
  string and \<^verbatim>\<open>str.upper()\<close>. Calls to collaborators are recorded and taken to
  return; the exceptions in the model are the ones the scripts' own expressions raise.
\<close>

record env =
  files :: "string \<Rightarrow> string option"
  isdir :: "string \<Rightarrow> bool"
  sys_command :: "string \<Rightarrow> string + string"
  mirror_reachable :: bool
  storage :: "string \<Rightarrow> pyval option"
  global_menu_run :: "(string \<times> bool) list \<Rightarrow> arguments \<Rightarrow> arguments"
  accessibility_tools_in_use :: bool
  chroot_choice_yes :: bool
  disk_layouts :: string
  str_of_object :: "pyval \<Rightarrow> string"
  str_upper :: "string \<Rightarrow> string"

definition py_str :: "env \<Rightarrow> pyval \<Rightarrow> string" where
  "py_str e v = (case v of PyStr s \<Rightarrow> s | _ \<Rightarrow> str_of_object e v)"

definition py_upper :: "env \<Rightarrow> pyval \<Rightarrow> py_error + string" where
  "py_upper e v = (case v of PyStr s \<Rightarrow> Inr (str_upper e s) | _ \<Rightarrow> Inl (AttributeError ''upper''))"

section \<open>Hardware detection (archinstall/lib/hardware.py)\<close>

definition open_file :: "env \<Rightarrow> string \<Rightarrow> py_error + string" where
  "open_file e path =
     (case files e path of
        None \<Rightarrow> Inl (FileNotFoundError path)
      | Some text \<Rightarrow> Inr (universal_newlines text))"

definition SysCommand :: "env \<Rightarrow> string \<Rightarrow> py_error + string" where
  "SysCommand e cmd = (case sys_command e cmd of Inl msg \<Rightarrow> Inl (SysCallError msg) | Inr out \<Rightarrow> Inr out)"

text \<open>The loop of \<^verbatim>\<open>_SysInfo.cpu_info\<close>: blank lines are skipped, every other line
  is split at its first colon and unpacked into key and value.\<close>

fun cpu_info_loop :: "string list \<Rightarrow> (string \<Rightarrow> string option) \<Rightarrow> py_error + (string \<Rightarrow> string option)" where
  "cpu_info_loop [] cpu = Inr cpu"
| "cpu_info_loop (line # rest) cpu =
     (if strip line \<noteq> [] then
        (case unpack2 (split_once CHR '':'' (strip line)) of
           Inl err \<Rightarrow> Inl err
         | Inr (key, val) \<Rightarrow> cpu_info_loop rest (cpu(strip key \<mapsto> strip val)))
      else cpu_info_loop rest cpu)"

definition cpu_info :: "env \<Rightarrow> py_error + (string \<Rightarrow> string option)" where
  "cpu_info e =
     (case open_file e ''/proc/cpuinfo'' of
        Inl err \<Rightarrow> Inl err
      | Inr text \<Rightarrow> cpu_info_loop (file_lines text) Map.empty)"

text \<open>The loop of \<^verbatim>\<open>_SysInfo.mem_info\<close>: every line is split at every colon and
  unpacked into key and value; the first word of the value is converted to an integer.\<close>

fun mem_info_loop :: "string list \<Rightarrow> (string \<Rightarrow> int option) \<Rightarrow> py_error + (string \<Rightarrow> int option)" where
  "mem_info_loop [] mem = Inr mem"
| "mem_info_loop (line # rest) mem =
     (case unpack2 (split_on CHR '':'' (strip line)) of
        Inl err \<Rightarrow> Inl err
      | Inr (key, val) \<Rightarrow>
          (case split_ws val of
             [] \<Rightarrow> Inl IndexError
           | num # _ \<Rightarrow>
               (case py_int num of
                  Inl err \<Rightarrow> Inl err
                | Inr n \<Rightarrow> mem_info_loop rest (mem(key \<mapsto> n)))))"

definition mem_info :: "env \<Rightarrow> py_error + (string \<Rightarrow> int option)" where
  "mem_info e =
     (case open_file e ''/proc/meminfo'' of
        Inl err \<Rightarrow> Inl err
      | Inr text \<Rightarrow> mem_info_loop (file_lines text) Map.empty)"

definition mem_info_by_key :: "env \<Rightarrow> string \<Rightarrow> py_error + int" where
  "mem_info_by_key e key =
     (case mem_info e of
        Inl err \<Rightarrow> Inl err
      | Inr mem \<Rightarrow> (case mem key of None \<Rightarrow> Inl (KeyError key) | Some n \<Rightarrow> Inr n))"

definition has_uefi :: "env \<Rightarrow> bool" where
  "has_uefi e = isdir e ''/sys/firmware/efi''"

definition cpu_vendor :: "env \<Rightarrow> py_error + string option" where
  "cpu_vendor e = (case cpu_info e of Inl err \<Rightarrow> Inl err | Inr cpu \<Rightarrow> Inr (cpu ''vendor_id''))"

definition cpu_model :: "env \<Rightarrow> py_error + string option" where
  "cpu_model e = (case cpu_info e of Inl err \<Rightarrow> Inl err | Inr cpu \<Rightarrow> Inr (cpu ''model name''))"

definition sys_vendor :: "env \<Rightarrow> py_error + string" where
  "sys_vendor e =
     (case open_file e ''/sys/devices/virtual/dmi/id/sys_vendor'' of
        Inl err \<Rightarrow> Inl err
      | Inr text \<Rightarrow> Inr (strip text))"

definition product_name :: "env \<Rightarrow> py_error + string" where
  "product_name e =
     (case open_file e ''/sys/devices/virtual/dmi/id/product_name'' of
        Inl err \<Rightarrow> Inl err
      | Inr text \<Rightarrow> Inr (strip text))"

definition mem_available :: "env \<Rightarrow> py_error + int" where
  "mem_available e = mem_info_by_key e ''MemAvailable''"

definition mem_free :: "env \<Rightarrow> py_error + int" where
  "mem_free e = mem_info_by_key e ''MemFree''"

definition mem_total :: "env \<Rightarrow> py_error + int" where
  "mem_total e = mem_info_by_key e ''MemTotal''"

text \<open>\<^verbatim>\<open>SysInfo.virtualization\<close> and \<^verbatim>\<open>SysInfo.is_vm\<close>: the
  \<^verbatim>\<open>except SysCallError\<close> clause handles that exception and no other; the result is
  the log written and the value returned or exception raised.\<close>

definition virtualization :: "env \<Rightarrow> event list \<times> (py_error + string option)" where
  "virtualization e =
     (case SysCommand e ''systemd-detect-virt'' of
        Inr out \<Rightarrow> ([], Inr (Some (strip_chars [CHR 0x0D, CHR 0x0A] out)))
      | Inl (SysCallError err) \<Rightarrow> ([Debug (''Could not detect virtual system: '' @ err)], Inr None)
      | Inl other \<Rightarrow> ([], Inl other))"

definition is_vm :: "env \<Rightarrow> event list \<times> (py_error + bool)" where
  "is_vm e =
     (case SysCommand e ''systemd-detect-virt'' of
        Inr out \<Rightarrow> ([], Inr (\<not> is_substring ''none'' (lower_bytes out)))
      | Inl (SysCallError err) \<Rightarrow> ([Debug (''System is not running in a VM: '' @ err)], Inr False)
      | Inl other \<Rightarrow> ([], Inl other))"

section \<open>Runs\<close>

text \<open>
  A run is the list of actions performed and the way it ended: by falling off the end
  of the code (\<open>Returned\<close>), by \<^verbatim>\<open>exit(n)\<close>, or by an exception nobody caught.
  Statements are executed in order; the first one that does not return ends the run.
\<close>

datatype outcome = Returned | Exited int | Raised py_error

type_synonym run = "event list \<times> outcome"

definition then_run :: "run \<Rightarrow> run \<Rightarrow> run" where
  "then_run r k = (case snd r of Returned \<Rightarrow> (fst r @ fst k, snd k) | _ \<Rightarrow> r)"

fun run_steps :: "run list \<Rightarrow> run" where
  "run_steps [] = ([], Returned)"
| "run_steps (s # ss) = then_run s (run_steps ss)"

definition call :: "event \<Rightarrow> run" where
  "call ev = ([ev], Returned)"

definition skip :: run where
  "skip = ([], Returned)"

definition raise :: "py_error \<Rightarrow> run" where
  "raise err = ([], Raised err)"

definition py_exit :: "int \<Rightarrow> run" where
  "py_exit n = ([], Exited n)"

text \<open>The exit status of the Python process: 0 when the script ends, the argument of
  \<^verbatim>\<open>exit\<close>, and 1 after an uncaught exception.\<close>

fun exit_code :: "outcome \<Rightarrow> int" where
  "exit_code Returned = 0"
| "exit_code (Exited n) = n"
| "exit_code (Raised err) = 1"

text \<open>A \<^verbatim>\<open>with\<close> block: the context manager is entered, the body runs, and the
  manager is left on every way out of the body; what ended the body ends the block.\<close>

definition with_block :: "event \<Rightarrow> run \<Rightarrow> event \<Rightarrow> run" where
  "with_block enter body leave = (enter # fst body @ [leave], snd body)"

text \<open>Order in a run: \<open>a\<close> happens before the first \<open>b\<close> and not again from
  then on.\<close>

definition strictly_before :: "event \<Rightarrow> event \<Rightarrow> event list \<Rightarrow> bool" where
  "strictly_before a b tr =
     (a \<in> set (takeWhile (\<lambda>x. x \<noteq> b) tr) \<and> a \<notin> set (dropWhile (\<lambda>x. x \<noteq> b) tr))"

section \<open>perform_installation (guided.py and interactive_installation.py)\<close>

text \<open>
  The function is the same in both scripts up to the default of the package list passed
  on and the text of the message for a missing audio server.
\<close>

datatype script = Guided | Interactive_installation

definition packages_default :: "script \<Rightarrow> pyval" where
  "packages_default sc = (case sc of Guided \<Rightarrow> PyNone | Interactive_installation \<Rightarrow> PyList [])"

definition no_audio_message :: "script \<Rightarrow> string" where
  "no_audio_message sc =
     (case sc of
        Guided \<Rightarrow> ''No audio server will be installed''
      | Interactive_installation \<Rightarrow> ''No audio server will be installed.'')"

definition mount_step :: "pyval \<Rightarrow> run" where
  "mount_step disk_config =
     (case config_type disk_config of
        Inl err \<Rightarrow> raise err
      | Inr t \<Rightarrow> if t \<noteq> Pre_mount then call Mount_ordered_layout else skip)"

definition key_files_step :: "pyval \<Rightarrow> pyval \<Rightarrow> run" where
  "key_files_step disk_config disk_encryption =
     (case config_type disk_config of
        Inl err \<Rightarrow> raise err
      | Inr t \<Rightarrow>
          if t \<noteq> Pre_mount then
            (if py_truthy disk_encryption then
               (case encryption_type disk_encryption of
                  Inl err \<Rightarrow> raise err
                | Inr et \<Rightarrow> if et \<noteq> NoEncryption then call Generate_key_files else skip)
             else skip)
          else skip)"

definition use_mirrors_step :: "arguments \<Rightarrow> run" where
  "use_mirrors_step args =
     (if py_truthy (dict_get args ''mirror-region'' PyNone) then
        (case dict_index args ''mirror-region'' of
           Inl err \<Rightarrow> raise err
         | Inr region \<Rightarrow> call (Use_mirrors region))
      else skip)"

definition minimal_installation_step :: "arguments \<Rightarrow> bool \<Rightarrow> bool \<Rightarrow> string \<Rightarrow> run" where
  "minimal_installation_step args enable_testing enable_multilib locale =
     call (Minimal_installation enable_testing enable_multilib
             (dict_get args ''hostname'' (PyStr ''archlinux'')) [locale])"

definition set_mirrors_step :: "arguments \<Rightarrow> run" where
  "set_mirrors_step args =
     (if dict_get args ''mirror-region'' PyNone \<noteq> PyNone then
        (if dict_get args ''mirrors'' PyNone \<noteq> PyNone then
           (case dict_index args ''mirror-region'' of
              Inl err \<Rightarrow> raise err
            | Inr region \<Rightarrow> call (Set_mirrors region))
         else skip)
      else skip)"

definition swap_step :: "arguments \<Rightarrow> run" where
  "swap_step args =
     (if py_truthy (dict_get args ''swap'' PyNone) then call (Setup_swap ''zram'') else skip)"

definition bootloader_prerequisite_step :: "env \<Rightarrow> arguments \<Rightarrow> run" where
  "bootloader_prerequisite_step e args =
     (if dict_get args ''bootloader'' PyNone = PyBootloader Grub \<and> has_uefi e
      then call (Add_additional_packages Bootloader_prerequisite (PyStr ''grub''))
      else skip)"

definition add_bootloader_step :: "arguments \<Rightarrow> run" where
  "add_bootloader_step args =
     (case dict_index args ''bootloader'' of
        Inl err \<Rightarrow> raise err
      | Inr b \<Rightarrow> call (Add_bootloader b))"

definition network_step :: "arguments \<Rightarrow> run" where
  "network_step args =
     (let network_config = dict_get args ''nic'' PyNone in
      if py_truthy network_config
      then call (Config_installer network_config (dict_get args ''profile_config'' PyNone))
      else skip)"

definition packages_step :: "script \<Rightarrow> arguments \<Rightarrow> run" where
  "packages_step sc args =
     (if py_truthy (dict_get args ''packages'' PyNone) then
        (case py_index0 (dict_get args ''packages'' PyNone) of
           Inl err \<Rightarrow> raise err
         | Inr first \<Rightarrow>
             if first \<noteq> PyStr [] then
               call (Add_additional_packages Plan_packages
                       (dict_get args ''packages'' (packages_default sc)))
             else skip)
      else skip)"

definition users_step :: "arguments \<Rightarrow> run" where
  "users_step args =
     (let users = dict_get args ''!users'' PyNone in
      if py_truthy users then call (Create_users users) else skip)"

definition audio_step :: "script \<Rightarrow> env \<Rightarrow> arguments \<Rightarrow> run" where
  "audio_step sc e args =
     (let audio = dict_get args ''audio'' PyNone in
      if py_truthy audio then
        then_run (call (Info (''Installing audio server: '' @ py_str e audio)))
          (if audio = PyStr ''pipewire'' then call PipewireProfile_install
           else if audio = PyStr ''pulseaudio''
             then call (Add_additional_packages Audio_server (PyStr ''pulseaudio''))
           else skip)
      else call (Info (no_audio_message sc)))"

definition profile_step :: "arguments \<Rightarrow> run" where
  "profile_step args =
     (let profile_config = dict_get args ''profile_config'' PyNone in
      if py_truthy profile_config then call (Install_profile_config profile_config) else skip)"

definition timezone_step :: "arguments \<Rightarrow> run" where
  "timezone_step args =
     (let timezone = dict_get args ''timezone'' PyNone in
      if py_truthy timezone then call (Set_timezone timezone) else skip)"

definition ntp_step :: "arguments \<Rightarrow> run" where
  "ntp_step args =
     (if py_truthy (dict_get args ''ntp'' (PyBool False)) then call Activate_time_syncronization
      else skip)"

definition espeakup_step :: "env \<Rightarrow> run" where
  "espeakup_step e = (if accessibility_tools_in_use e then call Enable_espeakup else skip)"

definition root_password_step :: "arguments \<Rightarrow> run" where
  "root_password_step args =
     (let root_pw = dict_get args ''!root-password'' PyNone in
      if py_truthy root_pw then
        (case py_len root_pw of
           Inl err \<Rightarrow> raise err
         | Inr n \<Rightarrow> if n \<noteq> 0 then call (User_set_pw ''root'' root_pw) else skip)
      else skip)"

definition keyboard_step :: "arguments \<Rightarrow> run" where
  "keyboard_step args =
     (case dict_index args ''keyboard-layout'' of
        Inl err \<Rightarrow> raise err
      | Inr layout \<Rightarrow> call (Set_keyboard_language layout))"

definition post_install_step :: "arguments \<Rightarrow> run" where
  "post_install_step args =
     (let profile_config = dict_get args ''profile_config'' PyNone in
      if py_truthy profile_config then
        (case profile_attr profile_config of
           Inl err \<Rightarrow> raise err
         | Inr _ \<Rightarrow> call Profile_post_install)
      else skip)"

definition services_step :: "arguments \<Rightarrow> run" where
  "services_step args =
     (if py_truthy (dict_get args ''services'' PyNone)
      then call (Enable_service (dict_get args ''services'' (PyList [])))
      else skip)"

definition custom_commands_step :: "arguments \<Rightarrow> run" where
  "custom_commands_step args =
     (if py_truthy (dict_get args ''custom-commands'' PyNone) then
        (case dict_index args ''custom-commands'' of
           Inl err \<Rightarrow> raise err
         | Inr commands \<Rightarrow> call (Run_custom_user_commands commands))
      else skip)"

definition tips_message :: string where
  "tips_message = ''For post-installation tips, see https://wiki.archlinux.org/index.php/Installation_guide#Post-installation''"

definition chroot_prompt :: string where
  "chroot_prompt = ''Would you like to chroot into the newly created installation and perform post-installation configuration?''"

text \<open>The final menu; an exception of \<^verbatim>\<open>drop_to_shell\<close> is caught and dropped, so
  the step returns either way.\<close>

definition chroot_step :: "env \<Rightarrow> arguments \<Rightarrow> run" where
  "chroot_step e args =
     (if \<not> py_truthy (dict_get args ''silent'' PyNone) then
        then_run (call (Menu_run chroot_prompt))
          (if chroot_choice_yes e then call Drop_to_shell else skip)
      else skip)"

text \<open>The body of the \<^verbatim>\<open>with Installer(...) as installation\<close> block, statement by
  statement.\<close>

definition installation_steps ::
  "script \<Rightarrow> env \<Rightarrow> arguments \<Rightarrow> pyval \<Rightarrow> bool \<Rightarrow> bool \<Rightarrow> string \<Rightarrow> pyval \<Rightarrow> run list" where
  "installation_steps sc e args disk_config enable_testing enable_multilib locale disk_encryption =
     [mount_step disk_config,
      call Sanity_check,
      key_files_step disk_config disk_encryption,
      use_mirrors_step args,
      minimal_installation_step args enable_testing enable_multilib locale,
      set_mirrors_step args,
      swap_step args,
      bootloader_prerequisite_step e args,
      add_bootloader_step args,
      network_step args,
      packages_step sc args,
      users_step args,
      audio_step sc e args,
      profile_step args,
      timezone_step args,
      ntp_step args,
      espeakup_step e,
      root_password_step args,
      keyboard_step args,
      post_install_step args,
      services_step args,
      custom_commands_step args,
      call Genfstab,
      call (Info tips_message),
      chroot_step e args]"

definition perform_installation :: "script \<Rightarrow> env \<Rightarrow> arguments \<Rightarrow> pyval \<Rightarrow> run" where
  "perform_installation sc e args mountpoint =
     then_run (call (Info ''Starting installation''))
       (case dict_index args ''disk_config'' of
          Inl err \<Rightarrow> raise err
        | Inr disk_config \<Rightarrow>
       (case py_contains ''testing'' (dict_get args ''additional-repositories'' (PyList [])) of
          Inl err \<Rightarrow> raise err
        | Inr enable_testing \<Rightarrow>
       (case py_contains ''multilib'' (dict_get args ''additional-repositories'' (PyList [])) of
          Inl err \<Rightarrow> raise err
        | Inr enable_multilib \<Rightarrow>
       (case py_upper e (dict_get args ''sys-encoding'' (PyStr ''UTF-8'')) of
          Inl err \<Rightarrow> raise err
        | Inr encoding \<Rightarrow>
            then_run
              (with_block
                 (Installer_enter mountpoint disk_config (dict_get args ''disk_encryption'' PyNone)
                    (dict_get args ''kernels'' (PyList [PyStr ''linux''])))
                 (run_steps
                    (installation_steps sc e args disk_config enable_testing enable_multilib
                       (py_str e (dict_get args ''sys-language'' (PyStr ''en_US'')) @ '' '' @ encoding)
                       (dict_get args ''disk_encryption'' PyNone)))
                 Installer_exit)
              (call (Debug (''Disk states after installing: '' @ disk_layouts e)))))))"

section \<open>The script body of guided.py\<close>

definition menu_items :: "arguments \<Rightarrow> (string \<times> bool) list" where
  "menu_items args =
     [(''archinstall-language'', False), (''keyboard-layout'', False), (''mirror-region'', False),
      (''sys-language'', False), (''sys-encoding'', False), (''disk_config'', True),
      (''disk_encryption'', False), (''bootloader'', False), (''swap'', False),
      (''hostname'', False), (''!root-password'', True), (''!users'', True),
      (''profile_config'', False), (''audio'', False), (''kernels'', False), (''packages'', False)]
     @ (if py_truthy (dict_get args ''advanced'' (PyBool False)) then [(''parallel downloads'', False)] else [])
     @ [(''nic'', False), (''timezone'', False), (''ntp'', False), (''additional-repositories'', False),
        (''__separator__'', False), (''save_config'', False), (''install'', False), (''abort'', False)]"

text \<open>\<^verbatim>\<open>ask_user_questions\<close> enables the menu entries (the pair's flag is
  \<^verbatim>\<open>mandatory\<close>) and runs the menu, which writes into the arguments.\<close>

definition ask_user_questions :: "env \<Rightarrow> arguments \<Rightarrow> event list \<times> arguments" where
  "ask_user_questions e args =
     ([GlobalMenu_run (menu_items args)], global_menu_run e (menu_items args) args)"

definition gather :: "env \<Rightarrow> arguments \<Rightarrow> event list \<times> arguments" where
  "gather e args =
     (if \<not> py_truthy (dict_get args ''silent'' PyNone) then ask_user_questions e args else ([], args))"

text \<open>The plan: the arguments as they stand once the question phase is over.\<close>

definition plan_of :: "env \<Rightarrow> arguments \<Rightarrow> arguments" where
  "plan_of e args = snd (gather e args)"

definition unreachable_message :: "string \<Rightarrow> string" where
  "unreachable_message log_file =
     ''Arch Linux mirrors are not reachable. Please check your internet connection and the log file ''
     @ [CHR 0x27] @ log_file @ [CHR 0x27] @ ''.''"

definition mirror_check_gate :: "env \<Rightarrow> arguments \<Rightarrow> run" where
  "mirror_check_gate e args =
     (if dict_get args ''skip-mirror-check'' (PyBool False) = PyBool False then
        then_run (call (Check_mirror_reachable (mirror_reachable e)))
          (if mirror_reachable e = False then
             (case path_join (dict_get (storage e) ''LOG_PATH'' PyNone)
                             (dict_get (storage e) ''LOG_FILE'' PyNone) of
                Inl err \<Rightarrow> raise err
              | Inr log_file \<Rightarrow> then_run (call (Info (unreachable_message log_file))) (py_exit 1))
           else skip)
      else skip)"

definition config_output_step :: "arguments \<Rightarrow> run" where
  "config_output_step args =
     then_run
       (if \<not> py_truthy (dict_get args ''silent'' PyNone) then call ConfigurationOutput_show else skip)
       (call ConfigurationOutput_save)"

definition dry_run_gate :: "arguments \<Rightarrow> run" where
  "dry_run_gate args = (if py_truthy (dict_get args ''dry_run'' PyNone) then py_exit 0 else skip)"

definition press_enter_step :: "arguments \<Rightarrow> run" where
  "press_enter_step args =
     (if \<not> py_truthy (dict_get args ''silent'' PyNone)
      then call (Input_prompt ''Press Enter to continue.'') else skip)"

text \<open>
  Modelled from the spec: \<^verbatim>\<open>FilesystemHandler.perform_filesystem_operations\<close> is not
  among the sources; the script calls it whatever the plan says. The spec has
  "Filesystem operations (partition/format) -- runs unless \<^verbatim>\<open>disk_config\<close> mode is
  pre-mounted".
\<close>

definition perform_filesystem_operations :: "pyval \<Rightarrow> run" where
  "perform_filesystem_operations disk_config =
     (if config_type disk_config = Inr Pre_mount then skip else call Partition_and_format)"

definition filesystem_step :: "arguments \<Rightarrow> run" where
  "filesystem_step args =
     (case dict_index args ''disk_config'' of
        Inl err \<Rightarrow> raise err
      | Inr disk_config \<Rightarrow>
          then_run
            (call (Perform_filesystem_operations disk_config (dict_get args ''disk_encryption'' PyNone)))
            (perform_filesystem_operations disk_config))"

definition help_message :: string where
  "help_message = ''See '' @ [CHR 0x60] @ ''man archinstall'' @ [CHR 0x60] @ '' for help.''"

definition guided :: "env \<Rightarrow> arguments \<Rightarrow> run" where
  "guided e args =
     (if py_truthy (dict_get args ''help'' PyNone) then then_run (call (Print help_message)) (py_exit 0)
      else
        run_steps
          [mirror_check_gate e args,
           (fst (gather e args), Returned),
           config_output_step (plan_of e args),
           dry_run_gate (plan_of e args),
           press_enter_step (plan_of e args),
           filesystem_step (plan_of e args),
           perform_installation Guided e (plan_of e args)
             (dict_get (storage e) ''MOUNT_POINT'' (PyPath ''/mnt''))])"

text \<open>The steps that change the target: filesystem operations, mounting, key files,
  the base installation, swap, the bootloader, package installation and the fstab.\<close>

fun filesystem_mutating :: "event \<Rightarrow> bool" where
  "filesystem_mutating (Perform_filesystem_operations disk_config disk_encryption) = True"
| "filesystem_mutating Partition_and_format = True"
| "filesystem_mutating Mount_ordered_layout = True"
| "filesystem_mutating Generate_key_files = True"
| "filesystem_mutating (Minimal_installation testing multilib hostname locales) = True"
| "filesystem_mutating (Setup_swap kind) = True"
| "filesystem_mutating (Add_additional_packages site packages) = True"
| "filesystem_mutating (Add_bootloader bootloader) = True"
| "filesystem_mutating Genfstab = True"
| "filesystem_mutating _ = False"

section \<open>Example machines and plans\<close>

text \<open>A machine with no pseudo-files, no firmware directory, a failing
  \<^verbatim>\<open>systemd-detect-virt\<close>, unreachable mirrors and a menu that changes nothing.\<close>

definition bare_machine :: env where
  "bare_machine =
     \<lparr>files = Map.empty, isdir = (\<lambda>p. False), sys_command = (\<lambda>c. Inl ''exit status 1''),
      mirror_reachable = False, storage = Map.empty,
      global_menu_run = (\<lambda>items args. args), accessibility_tools_in_use = False,
      chroot_choice_yes = False, disk_layouts = [], str_of_object = (\<lambda>v. []),
      str_upper = (\<lambda>s. s)\<rparr>"

definition cpuinfo_good :: string where
  "cpuinfo_good = ''vendor_id'' @ [CHR 0x09] @ '': GenuineIntel'' @ [CHR 0x0A]"

definition cpuinfo_bad :: string where
  "cpuinfo_bad = cpuinfo_good @ ''bogus'' @ [CHR 0x0A]"

definition meminfo_bad :: string where
  "meminfo_bad = ''MemTotal:       16384 kB'' @ [CHR 0x0A] @ ''bogus'' @ [CHR 0x0A]"

definition machine_bad_files :: env where
  "machine_bad_files =
     bare_machine\<lparr>files := [''/proc/cpuinfo'' \<mapsto> cpuinfo_bad, ''/proc/meminfo'' \<mapsto> meminfo_bad]\<rparr>"

definition machine_no_vendor :: env where
  "machine_no_vendor = bare_machine\<lparr>files := [''/proc/cpuinfo'' \<mapsto> ''flags : fpu'' @ [CHR 0x0A]]\<rparr>"

text \<open>A machine booted through UEFI with reachable mirrors, and a silent plan that
  names everything the installation reads.\<close>

definition uefi_machine :: env where
  "uefi_machine =
     bare_machine\<lparr>isdir := (\<lambda>p. p = ''/sys/firmware/efi''), mirror_reachable := True\<rparr>"

definition complete_plan :: arguments where
  "complete_plan =
     [''silent'' \<mapsto> PyBool True,
      ''disk_config'' \<mapsto> DiskLayoutConfiguration Fresh_layout,
      ''bootloader'' \<mapsto> PyBootloader Grub,
      ''keyboard-layout'' \<mapsto> PyStr ''us'',
      ''packages'' \<mapsto> PyList [PyStr ''vim''],
      ''audio'' \<mapsto> PyStr ''none'',
      ''profile_config'' \<mapsto> ProfileConfiguration]"

text \<open>A machine without network whose log file is known, and the complete plan as a
  dry run, with a pre-mounted disk layout, and with help asked for.\<close>

definition offline_machine :: env where
  "offline_machine =
     bare_machine\<lparr>storage := [''LOG_PATH'' \<mapsto> PyPath ''/var/log/archinstall'',
                                ''LOG_FILE'' \<mapsto> PyStr ''install.log'']\<rparr>"

definition dry_run_plan :: arguments where
  "dry_run_plan = complete_plan(''dry_run'' \<mapsto> PyBool True)"

definition pre_mounted_plan :: arguments where
  "pre_mounted_plan = complete_plan(''disk_config'' \<mapsto> DiskLayoutConfiguration Pre_mount)"


section \<open>Properties of the hardware detection\<close>

lemma set_dropWhile_subset: "set (dropWhile P xs) \<subseteq> set xs"
  by (induction xs) auto

lemma set_strip_subset: "set (strip s) \<subseteq> set s"
  unfolding strip_def strip_where_def
  using set_dropWhile_subset[of is_space "rev (dropWhile is_space s)"]
    set_dropWhile_subset[of is_space s]
  by auto

lemma split_once_no_sep: "sep \<notin> set s \<Longrightarrow> split_once sep s = [s]"
  by (induction s) auto

lemma split_where_none: "\<forall>c\<in>set s. \<not> P c \<Longrightarrow> split_where P s = [s]"
  by (induction s) auto

lemma split_on_no_sep: "sep \<notin> set s \<Longrightarrow> split_on sep s = [s]"
  unfolding split_on_def by (rule split_where_none) auto

lemma cpu_info_loop_error: "cpu_info_loop ls cpu = Inl err \<Longrightarrow> err = ValueError"
  by (induction ls arbitrary: cpu) (auto simp: unpack2_def split: if_splits sum.splits list.splits)

lemma cpu_info_loop_malformed:
  "line \<in> set ls \<Longrightarrow> strip line \<noteq> [] \<Longrightarrow> CHR '':'' \<notin> set line
     \<Longrightarrow> cpu_info_loop ls cpu = Inl ValueError"
proof (induction ls arbitrary: cpu)
  case Nil
  then show ?case by simp
next
  case (Cons l ls)
  show ?case
  proof (cases "l = line")
    case True
    have "CHR '':'' \<notin> set (strip line)"
      using Cons.prems(3) set_strip_subset[of line] by auto
    then have "split_once CHR '':'' (strip line) = [strip line]"
      by (rule split_once_no_sep)
    then show ?thesis using True Cons.prems(2) by (simp add: unpack2_def)
  next
    case False
    then have "line \<in> set ls" using Cons.prems(1) by simp
    then have rest: "\<And>c. cpu_info_loop ls c = Inl ValueError"
      using Cons.IH Cons.prems by blast
    show ?thesis
    proof (cases "cpu_info_loop (l # ls) cpu")
      case (Inl err)
      then show ?thesis using cpu_info_loop_error by blast
    next
      case (Inr m)
      then show ?thesis using rest by (auto split: if_splits sum.splits)
    qed
  qed
qed

lemma mem_info_loop_malformed:
  "line \<in> set ls \<Longrightarrow> CHR '':'' \<notin> set line \<Longrightarrow> \<exists>err. mem_info_loop ls mem = Inl err"
proof (induction ls arbitrary: mem)
  case Nil
  then show ?case by simp
next
  case (Cons l ls)
  show ?case
  proof (cases "l = line")
    case True
    have "CHR '':'' \<notin> set (strip line)"
      using Cons.prems(2) set_strip_subset[of line] by auto
    then have "split_on CHR '':'' (strip line) = [strip line]"
      by (rule split_on_no_sep)
    then show ?thesis using True by (simp add: unpack2_def)
  next
    case False
    then have "line \<in> set ls" using Cons.prems(1) by simp
    then have rest: "\<And>m. \<exists>err. mem_info_loop ls m = Inl err"
      using Cons.IH Cons.prems by blast
    show ?thesis using rest by (simp split: sum.splits list.splits prod.splits)
  qed
qed

lemma cpu_info_no_vendor:
  "\<exists>cpu. cpu_info machine_no_vendor = Inr cpu \<and> cpu ''vendor_id'' = None \<and> cpu ''model name'' = None"
  by (simp add: machine_no_vendor_def bare_machine_def cpu_info_def open_file_def strip_def
      strip_where_def is_space_def whitespace_def unpack2_def)

text \<open>
  C6, as the code has it. Three detectors degrade without raising: \<open>has_uefi\<close> is
  false when the firmware directory is missing, and when the virtualization utility
  fails \<open>virtualization\<close> returns \<^verbatim>\<open>None\<close> and \<open>is_vm\<close> returns false. The
  CPU queries return \<^verbatim>\<open>None\<close> when \<^verbatim>\<open>/proc/cpuinfo\<close> was read and lacks the key.
  When the pseudo-file itself is absent, \<open>cpu_vendor\<close>, \<open>cpu_model\<close>,
  \<open>sys_vendor\<close>, \<open>product_name\<close> and the three memory queries raise
  \<^verbatim>\<open>FileNotFoundError\<close>: nothing in them catches it.
\<close>

theorem detectors_on_missing_source:
  "(\<not> isdir e ''/sys/firmware/efi'' \<longrightarrow> has_uefi e = False)
   \<and> (sys_command e ''systemd-detect-virt'' = Inl msg \<longrightarrow>
        snd (virtualization e) = Inr None \<and> snd (is_vm e) = Inr False)
   \<and> (cpu_info e = Inr cpu \<and> cpu ''vendor_id'' = None \<and> cpu ''model name'' = None \<longrightarrow>
        cpu_vendor e = Inr None \<and> cpu_model e = Inr None)
   \<and> (files e ''/proc/cpuinfo'' = None \<longrightarrow>
        cpu_vendor e = Inl (FileNotFoundError ''/proc/cpuinfo'')
        \<and> cpu_model e = Inl (FileNotFoundError ''/proc/cpuinfo''))
   \<and> (files e ''/sys/devices/virtual/dmi/id/sys_vendor'' = None \<longrightarrow>
        sys_vendor e = Inl (FileNotFoundError ''/sys/devices/virtual/dmi/id/sys_vendor''))
   \<and> (files e ''/sys/devices/virtual/dmi/id/product_name'' = None \<longrightarrow>
        product_name e = Inl (FileNotFoundError ''/sys/devices/virtual/dmi/id/product_name''))
   \<and> (files e ''/proc/meminfo'' = None \<longrightarrow>
        mem_total e = Inl (FileNotFoundError ''/proc/meminfo'')
        \<and> mem_free e = Inl (FileNotFoundError ''/proc/meminfo'')
        \<and> mem_available e = Inl (FileNotFoundError ''/proc/meminfo''))"
  by (simp add: has_uefi_def virtualization_def is_vm_def SysCommand_def cpu_vendor_def
      cpu_model_def cpu_info_def open_file_def sys_vendor_def product_name_def mem_total_def
      mem_free_def mem_available_def mem_info_by_key_def mem_info_def)

theorem detectors_on_missing_source_witness:
  "\<not> isdir bare_machine ''/sys/firmware/efi'' \<and> has_uefi bare_machine = False
   \<and> sys_command bare_machine ''systemd-detect-virt'' = Inl ''exit status 1''
   \<and> snd (virtualization bare_machine) = Inr None \<and> snd (is_vm bare_machine) = Inr False
   \<and> (\<exists>cpu. cpu_info machine_no_vendor = Inr cpu \<and> cpu ''vendor_id'' = None
             \<and> cpu ''model name'' = None)
   \<and> cpu_vendor machine_no_vendor = Inr None \<and> cpu_model machine_no_vendor = Inr None
   \<and> files bare_machine ''/proc/cpuinfo'' = None
   \<and> cpu_vendor bare_machine = Inl (FileNotFoundError ''/proc/cpuinfo'')
   \<and> files bare_machine ''/sys/devices/virtual/dmi/id/sys_vendor'' = None
   \<and> sys_vendor bare_machine = Inl (FileNotFoundError ''/sys/devices/virtual/dmi/id/sys_vendor'')
   \<and> files bare_machine ''/sys/devices/virtual/dmi/id/product_name'' = None
   \<and> product_name bare_machine
       = Inl (FileNotFoundError ''/sys/devices/virtual/dmi/id/product_name'')
   \<and> files bare_machine ''/proc/meminfo'' = None
   \<and> mem_total bare_machine = Inl (FileNotFoundError ''/proc/meminfo'')"
proof -
  have h1: "\<not> isdir bare_machine ''/sys/firmware/efi''" by (simp add: bare_machine_def)
  have h2: "sys_command bare_machine ''systemd-detect-virt'' = Inl ''exit status 1''"
    by (simp add: bare_machine_def)
  have h3: "files bare_machine = Map.empty" by (simp add: bare_machine_def)
  obtain cpu where h4:
    "cpu_info machine_no_vendor = Inr cpu \<and> cpu ''vendor_id'' = None \<and> cpu ''model name'' = None"
    using cpu_info_no_vendor by blast
  show ?thesis
    using h1 h2 h3 h4 detectors_on_missing_source[of bare_machine "''exit status 1''" cpu]
      detectors_on_missing_source[of machine_no_vendor "''exit status 1''" cpu]
    by auto
qed

text \<open>Against C6 as stated: on a machine without \<^verbatim>\<open>/proc/cpuinfo\<close>, without the DMI
  files and without \<^verbatim>\<open>/proc/meminfo\<close> the queries raise instead of returning.\<close>

theorem cpu_vendor_raises_without_cpuinfo:
  "files bare_machine ''/proc/cpuinfo'' = None
   \<and> cpu_vendor bare_machine = Inl (FileNotFoundError ''/proc/cpuinfo'')
   \<and> files bare_machine ''/sys/devices/virtual/dmi/id/sys_vendor'' = None
   \<and> sys_vendor bare_machine = Inl (FileNotFoundError ''/sys/devices/virtual/dmi/id/sys_vendor'')
   \<and> files bare_machine ''/proc/meminfo'' = None
   \<and> mem_total bare_machine = Inl (FileNotFoundError ''/proc/meminfo'')"
  by (simp add: bare_machine_def cpu_vendor_def cpu_info_def open_file_def sys_vendor_def
      mem_total_def mem_info_by_key_def mem_info_def)

text \<open>
  C7, as the code has it. When \<^verbatim>\<open>systemd-detect-virt\<close> fails, \<open>virtualization\<close>
  writes the failure to the debug log and returns \<^verbatim>\<open>None\<close>; whatever the utility
  does (fail or print), \<open>virtualization\<close> returns a value and raises nothing.
\<close>

theorem virtualization_failure_returns_None:
  "(sys_command e ''systemd-detect-virt'' = Inl msg \<longrightarrow>
      virtualization e = ([Debug (''Could not detect virtual system: '' @ msg)], Inr None))
   \<and> (\<exists>v. snd (virtualization e) = Inr v)"
  by (cases "sys_command e ''systemd-detect-virt''")
    (simp_all add: virtualization_def SysCommand_def)

theorem virtualization_failure_returns_None_witness:
  "sys_command bare_machine ''systemd-detect-virt'' = Inl ''exit status 1''
   \<and> virtualization bare_machine
       = ([Debug ''Could not detect virtual system: exit status 1''], Inr None)
   \<and> (\<exists>v. snd (virtualization bare_machine) = Inr v)"
proof -
  have h: "sys_command bare_machine ''systemd-detect-virt'' = Inl ''exit status 1''"
    by (simp add: bare_machine_def)
  show ?thesis
    using h virtualization_failure_returns_None[of bare_machine "''exit status 1''"] by simp
qed

text \<open>Against C7 as stated: with a failing utility the value returned is \<^verbatim>\<open>None\<close>,
  not the string "unknown".\<close>

theorem virtualization_failure_not_unknown:
  "sys_command bare_machine ''systemd-detect-virt'' = Inl ''exit status 1''
   \<and> snd (virtualization bare_machine) = Inr None
   \<and> snd (virtualization bare_machine) \<noteq> Inr (Some ''unknown'')"
  by (simp add: bare_machine_def virtualization_def SysCommand_def)

text \<open>
  C8, as the code has it. Parsing is eager: a line of \<^verbatim>\<open>/proc/cpuinfo\<close> that is not
  blank and has no colon makes \<open>cpu_vendor\<close> and \<open>cpu_model\<close> fail with
  \<^verbatim>\<open>ValueError\<close>, and a line of \<^verbatim>\<open>/proc/meminfo\<close> without a colon makes the
  memory query for every key fail, whichever key is asked for and whether or not another
  line gives it.
\<close>

theorem parsing_is_eager:
  "(files e ''/proc/cpuinfo'' = Some text \<and> line \<in> set (file_lines (universal_newlines text))
      \<and> strip line \<noteq> [] \<and> CHR '':'' \<notin> set line
      \<longrightarrow> cpu_vendor e = Inl ValueError \<and> cpu_model e = Inl ValueError)
   \<and> (files e ''/proc/meminfo'' = Some text' \<and> line' \<in> set (file_lines (universal_newlines text'))
      \<and> CHR '':'' \<notin> set line'
      \<longrightarrow> (\<forall>key. \<exists>err. mem_info_by_key e key = Inl err))"
proof (intro conjI impI)
  assume "files e ''/proc/cpuinfo'' = Some text \<and> line \<in> set (file_lines (universal_newlines text))
      \<and> strip line \<noteq> [] \<and> CHR '':'' \<notin> set line"
  then have "cpu_info e = Inl ValueError"
    using cpu_info_loop_malformed[of line "file_lines (universal_newlines text)" Map.empty]
    by (simp add: cpu_info_def open_file_def)
  then show "cpu_vendor e = Inl ValueError" "cpu_model e = Inl ValueError"
    by (simp_all add: cpu_vendor_def cpu_model_def)
next
  assume "files e ''/proc/meminfo'' = Some text' \<and> line' \<in> set (file_lines (universal_newlines text'))
      \<and> CHR '':'' \<notin> set line'"
  then obtain err where "mem_info e = Inl err"
    using mem_info_loop_malformed[of line' "file_lines (universal_newlines text')" Map.empty]
    by (auto simp: mem_info_def open_file_def)
  then show "\<forall>key. \<exists>err. mem_info_by_key e key = Inl err"
    by (simp add: mem_info_by_key_def)
qed

theorem parsing_is_eager_witness:
  "files machine_bad_files ''/proc/cpuinfo'' = Some cpuinfo_bad
   \<and> ''bogus'' @ [CHR 0x0A] \<in> set (file_lines (universal_newlines cpuinfo_bad))
   \<and> strip (''bogus'' @ [CHR 0x0A]) \<noteq> []
   \<and> CHR '':'' \<notin> set (''bogus'' @ [CHR 0x0A])
   \<and> cpu_vendor machine_bad_files = Inl ValueError
   \<and> cpu_model machine_bad_files = Inl ValueError
   \<and> files machine_bad_files ''/proc/meminfo'' = Some meminfo_bad
   \<and> ''bogus'' @ [CHR 0x0A] \<in> set (file_lines (universal_newlines meminfo_bad))
   \<and> (\<forall>key. \<exists>err. mem_info_by_key machine_bad_files key = Inl err)"
proof -
  have h1: "files machine_bad_files ''/proc/cpuinfo'' = Some cpuinfo_bad"
    by (simp add: machine_bad_files_def bare_machine_def)
  have h2: "''bogus'' @ [CHR 0x0A] \<in> set (file_lines (universal_newlines cpuinfo_bad))"
    by (simp add: cpuinfo_bad_def cpuinfo_good_def)
  have h3: "strip (''bogus'' @ [CHR 0x0A]) \<noteq> []"
    by (simp add: strip_def strip_where_def is_space_def whitespace_def)
  have h4: "CHR '':'' \<notin> set (''bogus'' @ [CHR 0x0A])" by simp
  have h5: "files machine_bad_files ''/proc/meminfo'' = Some meminfo_bad"
    by (simp add: machine_bad_files_def bare_machine_def)
  have h6: "''bogus'' @ [CHR 0x0A] \<in> set (file_lines (universal_newlines meminfo_bad))"
    by (simp add: meminfo_bad_def)
  show ?thesis
    using h1 h2 h3 h4 h5 h6
      parsing_is_eager[of machine_bad_files cpuinfo_bad "''bogus'' @ [CHR 0x0A]" meminfo_bad
        "''bogus'' @ [CHR 0x0A]"]
    by blast
qed

text \<open>Against C8 as stated: the file whose only line gives \<^verbatim>\<open>vendor_id\<close> answers
  the query; the same file with one more line, malformed and about no key at all, makes
  the query for \<^verbatim>\<open>vendor_id\<close> fail.\<close>

theorem malformed_line_fails_present_key:
  "cpu_vendor (bare_machine\<lparr>files := [''/proc/cpuinfo'' \<mapsto> cpuinfo_good]\<rparr>)
     = Inr (Some ''GenuineIntel'')
   \<and> cpu_vendor (bare_machine\<lparr>files := [''/proc/cpuinfo'' \<mapsto> cpuinfo_bad]\<rparr>) = Inl ValueError"
  by (simp add: cpu_vendor_def cpu_info_def open_file_def bare_machine_def cpuinfo_bad_def
      cpuinfo_good_def strip_def strip_where_def is_space_def whitespace_def unpack2_def)

section \<open>Properties of the installation\<close>

lemmas run_defs = then_run_def call_def skip_def raise_def py_exit_def

lemmas step_defs = mount_step_def key_files_step_def use_mirrors_step_def
  minimal_installation_step_def set_mirrors_step_def swap_step_def
  bootloader_prerequisite_step_def add_bootloader_step_def network_step_def packages_step_def
  users_step_def audio_step_def profile_step_def timezone_step_def ntp_step_def
  espeakup_step_def root_password_step_def keyboard_step_def post_install_step_def
  services_step_def custom_commands_step_def chroot_step_def

lemma then_run_events: "ev \<in> set (fst (then_run r k)) \<Longrightarrow> ev \<in> set (fst r) \<or> ev \<in> set (fst k)"
  by (auto simp: then_run_def split: outcome.splits)

lemma run_steps_events: "ev \<in> set (fst (run_steps ss)) \<Longrightarrow> \<exists>s\<in>set ss. ev \<in> set (fst s)"
  by (induction ss) (auto dest: then_run_events)

lemma run_steps_Returned:
  "snd (run_steps ss) = Returned \<Longrightarrow>
     fst (run_steps ss) = concat (map fst ss) \<and> (\<forall>s\<in>set ss. snd s = Returned)"
  by (induction ss) (auto simp: then_run_def split: outcome.splits)

lemma run_steps_append: "run_steps (xs @ ys) = then_run (run_steps xs) (run_steps ys)"
  by (induction xs) (auto simp: then_run_def split: outcome.splits)

lemma block_shape:
  "fst (then_run (call a) (then_run (with_block en body lv) (call d)))
     = a # en # fst body @ lv # (if snd body = Returned then [d] else [])"
  "snd (then_run (call a) (then_run (with_block en body lv) (call d))) = snd body"
  by (auto simp: run_defs with_block_def split: outcome.splits)

lemma perform_installation_shape:
  "(\<exists>err. perform_installation sc e args mp = ([Info ''Starting installation''], Raised err))
   \<or> (\<exists>dc t m loc.
        dict_index args ''disk_config'' = Inr dc \<and>
        fst (perform_installation sc e args mp) =
          Info ''Starting installation''
          # Installer_enter mp dc (dict_get args ''disk_encryption'' PyNone)
              (dict_get args ''kernels'' (PyList [PyStr ''linux'']))
          # fst (run_steps (installation_steps sc e args dc t m loc (dict_get args ''disk_encryption'' PyNone)))
          @ Installer_exit
          # (if snd (run_steps (installation_steps sc e args dc t m loc (dict_get args ''disk_encryption'' PyNone))) = Returned
             then [Debug (''Disk states after installing: '' @ disk_layouts e)] else []) \<and>
        snd (perform_installation sc e args mp) =
          snd (run_steps (installation_steps sc e args dc t m loc (dict_get args ''disk_encryption'' PyNone))))"
proof (cases "dict_index args ''disk_config''")
  case (Inl err)
  then show ?thesis by (simp add: perform_installation_def run_defs)
next
  case dc: (Inr dc)
  show ?thesis
  proof (cases "py_contains ''testing'' (dict_get args ''additional-repositories'' (PyList []))")
    case (Inl err)
    then show ?thesis using dc by (simp add: perform_installation_def run_defs)
  next
    case t: (Inr t)
    show ?thesis
    proof (cases "py_contains ''multilib'' (dict_get args ''additional-repositories'' (PyList []))")
      case (Inl err)
      then show ?thesis using dc t by (simp add: perform_installation_def run_defs)
    next
      case m: (Inr m)
      show ?thesis
      proof (cases "py_upper e (dict_get args ''sys-encoding'' (PyStr ''UTF-8''))")
        case (Inl err)
        then show ?thesis using dc t m by (simp add: perform_installation_def run_defs)
      next
        case enc: (Inr enc)
        have eq: "perform_installation sc e args mp =
          then_run (call (Info ''Starting installation''))
            (then_run
              (with_block
                 (Installer_enter mp dc (dict_get args ''disk_encryption'' PyNone)
                    (dict_get args ''kernels'' (PyList [PyStr ''linux''])))
                 (run_steps
                    (installation_steps sc e args dc t m
                       (py_str e (dict_get args ''sys-language'' (PyStr ''en_US'')) @ '' '' @ enc)
                       (dict_get args ''disk_encryption'' PyNone)))
                 Installer_exit)
              (call (Debug (''Disk states after installing: '' @ disk_layouts e))))"
          using dc t m enc by (simp add: perform_installation_def)
        show ?thesis
          apply (rule disjI2)
          apply (rule exI[of _ dc])
          apply (rule exI[of _ t])
          apply (rule exI[of _ m])
          apply (rule exI[of _ "py_str e (dict_get args ''sys-language'' (PyStr ''en_US'')) @ '' '' @ enc"])
          apply (simp only: eq block_shape dc)
          done
      qed
    qed
  qed
qed

lemma grub_only_from_prerequisite_step:
  "s \<in> set (installation_steps sc e args dc t m loc enc) \<Longrightarrow>
   Add_additional_packages Bootloader_prerequisite v \<in> set (fst s) \<Longrightarrow>
   v = PyStr ''grub'' \<and> dict_get args ''bootloader'' PyNone = PyBootloader Grub \<and> has_uefi e"
  unfolding installation_steps_def
  apply (simp only: list.set insert_iff empty_iff)
  apply (elim disjE)
  apply (simp_all add: step_defs run_defs Let_def split: sum.splits if_splits)
  done


lemma perform_installation_step_event:
  assumes "ev \<in> set (fst (perform_installation sc e args mp))"
    and "ev \<noteq> Info ''Starting installation''"
    and "\<And>a b c d. ev \<noteq> Installer_enter a b c d"
    and "ev \<noteq> Installer_exit"
    and "\<And>msg. ev \<noteq> Debug msg"
  shows "\<exists>dc t m loc. dict_index args ''disk_config'' = Inr dc \<and>
           (\<exists>s\<in>set (installation_steps sc e args dc t m loc (dict_get args ''disk_encryption'' PyNone)).
              ev \<in> set (fst s))"
proof -
  from perform_installation_shape[of sc e args mp] show ?thesis
  proof (elim disjE exE conjE)
    fix err assume "perform_installation sc e args mp = ([Info ''Starting installation''], Raised err)"
    then show ?thesis using assms(1,2) by simp
  next
    fix dc t m loc
    assume dc: "dict_index args ''disk_config'' = Inr dc"
      and tr: "fst (perform_installation sc e args mp) =
          Info ''Starting installation''
          # Installer_enter mp dc (dict_get args ''disk_encryption'' PyNone)
              (dict_get args ''kernels'' (PyList [PyStr ''linux'']))
          # fst (run_steps (installation_steps sc e args dc t m loc (dict_get args ''disk_encryption'' PyNone)))
          @ Installer_exit
          # (if snd (run_steps (installation_steps sc e args dc t m loc (dict_get args ''disk_encryption'' PyNone))) = Returned
             then [Debug (''Disk states after installing: '' @ disk_layouts e)] else [])"
    have "ev \<in> set (fst (run_steps (installation_steps sc e args dc t m loc (dict_get args ''disk_encryption'' PyNone))))"
      using assms tr by (auto split: if_splits)
    then show ?thesis using dc run_steps_events by blast
  qed
qed

lemma perform_installation_Returned:
  assumes "snd (perform_installation sc e args mp) = Returned"
  shows "\<exists>dc t m loc. dict_index args ''disk_config'' = Inr dc \<and>
           fst (perform_installation sc e args mp) =
             Info ''Starting installation''
             # Installer_enter mp dc (dict_get args ''disk_encryption'' PyNone)
                 (dict_get args ''kernels'' (PyList [PyStr ''linux'']))
             # concat (map fst (installation_steps sc e args dc t m loc (dict_get args ''disk_encryption'' PyNone)))
             @ [Installer_exit, Debug (''Disk states after installing: '' @ disk_layouts e)] \<and>
           (\<forall>s\<in>set (installation_steps sc e args dc t m loc (dict_get args ''disk_encryption'' PyNone)).
              snd s = Returned)"
proof -
  from perform_installation_shape[of sc e args mp] show ?thesis
  proof (elim disjE exE conjE)
    fix err assume "perform_installation sc e args mp = ([Info ''Starting installation''], Raised err)"
    then show ?thesis using assms by simp
  next
    fix dc t m loc
    assume dc: "dict_index args ''disk_config'' = Inr dc"
      and tr: "fst (perform_installation sc e args mp) =
          Info ''Starting installation''
          # Installer_enter mp dc (dict_get args ''disk_encryption'' PyNone)
              (dict_get args ''kernels'' (PyList [PyStr ''linux'']))
          # fst (run_steps (installation_steps sc e args dc t m loc (dict_get args ''disk_encryption'' PyNone)))
          @ Installer_exit
          # (if snd (run_steps (installation_steps sc e args dc t m loc (dict_get args ''disk_encryption'' PyNone))) = Returned
             then [Debug (''Disk states after installing: '' @ disk_layouts e)] else [])"
      and out: "snd (perform_installation sc e args mp) =
          snd (run_steps (installation_steps sc e args dc t m loc (dict_get args ''disk_encryption'' PyNone)))"
    have ret: "snd (run_steps (installation_steps sc e args dc t m loc (dict_get args ''disk_encryption'' PyNone))) = Returned"
      using assms out by simp
    from run_steps_Returned[OF ret] show ?thesis using dc tr ret by auto
  qed
qed

lemma Returned_step_event:
  assumes "snd (perform_installation sc e args mp) = Returned"
    and "\<And>dc t m loc. st \<in> set (installation_steps sc e args dc t m loc (dict_get args ''disk_encryption'' PyNone))"
    and "ev \<in> set (fst st)"
  shows "ev \<in> set (fst (perform_installation sc e args mp))"
proof -
  from perform_installation_Returned[OF assms(1)] obtain dc t m loc where
    tr: "fst (perform_installation sc e args mp) =
             Info ''Starting installation''
             # Installer_enter mp dc (dict_get args ''disk_encryption'' PyNone)
                 (dict_get args ''kernels'' (PyList [PyStr ''linux'']))
             # concat (map fst (installation_steps sc e args dc t m loc (dict_get args ''disk_encryption'' PyNone)))
             @ [Installer_exit, Debug (''Disk states after installing: '' @ disk_layouts e)]"
    by blast
  have "ev \<in> set (concat (map fst (installation_steps sc e args dc t m loc (dict_get args ''disk_encryption'' PyNone))))"
    using assms(2)[of dc t m loc] assms(3) by auto
  then show ?thesis using tr by simp
qed

lemma Returned_step_Returned:
  assumes "snd (perform_installation sc e args mp) = Returned"
    and "\<And>dc t m loc. st \<in> set (installation_steps sc e args dc t m loc (dict_get args ''disk_encryption'' PyNone))"
  shows "snd st = Returned"
  using perform_installation_Returned[OF assms(1)] assms(2) by blast

text \<open>
  C2. In \<^verbatim>\<open>perform_installation\<close> of both scripts the package \<^verbatim>\<open>grub\<close> is
  installed as bootloader prerequisite only if the chosen bootloader is GRUB and
  \<open>has_uefi\<close> holds (so never without UEFI, whatever the bootloader), and in every
  run that is not cut short by an exception it is installed exactly under that
  condition.
\<close>

theorem grub_prerequisite_iff:
  "(Add_additional_packages Bootloader_prerequisite v \<in> set (fst (perform_installation sc e args mp))
      \<longrightarrow> v = PyStr ''grub'' \<and> dict_get args ''bootloader'' PyNone = PyBootloader Grub \<and> has_uefi e)
   \<and> (snd (perform_installation sc e args mp) = Returned \<longrightarrow>
        (Add_additional_packages Bootloader_prerequisite (PyStr ''grub'')
           \<in> set (fst (perform_installation sc e args mp))
         \<longleftrightarrow> dict_get args ''bootloader'' PyNone = PyBootloader Grub \<and> has_uefi e))"
proof -
  have only_if: "v = PyStr ''grub'' \<and> dict_get args ''bootloader'' PyNone = PyBootloader Grub \<and> has_uefi e"
    if "Add_additional_packages Bootloader_prerequisite v \<in> set (fst (perform_installation sc e args mp))" for v
    using perform_installation_step_event[OF that] grub_only_from_prerequisite_step by blast
  have "if": "Add_additional_packages Bootloader_prerequisite (PyStr ''grub'')
           \<in> set (fst (perform_installation sc e args mp))"
    if ret: "snd (perform_installation sc e args mp) = Returned"
      and c: "dict_get args ''bootloader'' PyNone = PyBootloader Grub \<and> has_uefi e"
  proof (rule Returned_step_event[OF ret, of "bootloader_prerequisite_step e args"])
    show "bootloader_prerequisite_step e args
        \<in> set (installation_steps sc e args dc t m loc (dict_get args ''disk_encryption'' PyNone))" for dc t m loc
      by (simp add: installation_steps_def)
    show "Add_additional_packages Bootloader_prerequisite (PyStr ''grub'')
        \<in> set (fst (bootloader_prerequisite_step e args))"
      using c by (simp add: bootloader_prerequisite_step_def call_def)
  qed
  show ?thesis using only_if "if" by blast
qed


lemmas eval_defs = perform_installation_def installation_steps_def step_defs run_defs with_block_def
  dict_get_def dict_index_def py_upper_def py_str_def has_uefi_def packages_default_def
  no_audio_message_def tips_message_def chroot_prompt_def Let_def

lemma complete_plan_run:
  "perform_installation Guided uefi_machine complete_plan (PyPath ''/mnt'') =
     ([Info ''Starting installation'',
       Installer_enter (PyPath ''/mnt'') (DiskLayoutConfiguration Fresh_layout) PyNone (PyList [PyStr ''linux'']),
       Mount_ordered_layout, Sanity_check,
       Minimal_installation False False (PyStr ''archlinux'') [''en_US UTF-8''],
       Add_additional_packages Bootloader_prerequisite (PyStr ''grub''),
       Add_bootloader (PyBootloader Grub),
       Add_additional_packages Plan_packages (PyList [PyStr ''vim'']),
       Info ''Installing audio server: none'',
       Install_profile_config ProfileConfiguration,
       Set_keyboard_language (PyStr ''us''), Profile_post_install, Genfstab,
       Info tips_message, Installer_exit, Debug ''Disk states after installing: ''],
      Returned)"
  by (simp add: eval_defs complete_plan_def uefi_machine_def bare_machine_def)

theorem grub_prerequisite_iff_witness:
  "Add_additional_packages Bootloader_prerequisite (PyStr ''grub'')
     \<in> set (fst (perform_installation Guided uefi_machine complete_plan (PyPath ''/mnt'')))
   \<and> snd (perform_installation Guided uefi_machine complete_plan (PyPath ''/mnt'')) = Returned
   \<and> dict_get complete_plan ''bootloader'' PyNone = PyBootloader Grub
   \<and> has_uefi uefi_machine"
proof -
  have ret: "snd (perform_installation Guided uefi_machine complete_plan (PyPath ''/mnt'')) = Returned"
    by (simp add: complete_plan_run)
  have c: "dict_get complete_plan ''bootloader'' PyNone = PyBootloader Grub \<and> has_uefi uefi_machine"
    by (simp add: dict_get_def complete_plan_def has_uefi_def uefi_machine_def)
  show ?thesis
    using ret c
      grub_prerequisite_iff[of "PyStr ''grub''" Guided uefi_machine complete_plan "PyPath ''/mnt''"]
    by blast
qed

lemma plan_packages_only_from_packages_step:
  "s \<in> set (installation_steps sc e args dc t m loc enc) \<Longrightarrow>
   Add_additional_packages Plan_packages v \<in> set (fst s) \<Longrightarrow>
   py_truthy (dict_get args ''packages'' PyNone) \<and>
   (\<exists>first. py_index0 (dict_get args ''packages'' PyNone) = Inr first \<and> first \<noteq> PyStr [])"
  unfolding installation_steps_def
  apply (simp only: list.set insert_iff empty_iff)
  apply (elim disjE)
  apply (simp_all add: step_defs run_defs Let_def split: sum.splits if_splits)
  done

text \<open>
  C9, as the code has it. The guard of the step is
  \<^verbatim>\<open>packages and packages[0] != ''\<close>: the plan's packages are installed only if the
  list is non-empty and its first entry is not the empty string, and in every run
  that is not cut short by an exception they are installed exactly under that
  condition.
\<close>

theorem additional_packages_iff:
  "(Add_additional_packages Plan_packages v \<in> set (fst (perform_installation sc e args mp)) \<longrightarrow>
      py_truthy (dict_get args ''packages'' PyNone) \<and>
      (\<exists>first. py_index0 (dict_get args ''packages'' PyNone) = Inr first \<and> first \<noteq> PyStr []))
   \<and> (snd (perform_installation sc e args mp) = Returned \<longrightarrow>
        ((\<exists>pkgs. Add_additional_packages Plan_packages pkgs \<in> set (fst (perform_installation sc e args mp)))
         \<longleftrightarrow> py_truthy (dict_get args ''packages'' PyNone) \<and>
             py_index0 (dict_get args ''packages'' PyNone) \<noteq> Inr (PyStr [])))"
proof -
  have only_if: "py_truthy (dict_get args ''packages'' PyNone) \<and>
      (\<exists>first. py_index0 (dict_get args ''packages'' PyNone) = Inr first \<and> first \<noteq> PyStr [])"
    if "Add_additional_packages Plan_packages v \<in> set (fst (perform_installation sc e args mp))" for v
    using perform_installation_step_event[OF that] plan_packages_only_from_packages_step by blast
  have "if": "\<exists>pkgs. Add_additional_packages Plan_packages pkgs \<in> set (fst (perform_installation sc e args mp))"
    if ret: "snd (perform_installation sc e args mp) = Returned"
      and c: "py_truthy (dict_get args ''packages'' PyNone) \<and>
             py_index0 (dict_get args ''packages'' PyNone) \<noteq> Inr (PyStr [])"
  proof -
    have mem: "packages_step sc args
        \<in> set (installation_steps sc e args dc t m loc (dict_get args ''disk_encryption'' PyNone))" for dc t m loc
      by (simp add: installation_steps_def)
    have "snd (packages_step sc args) = Returned"
      by (rule Returned_step_Returned[OF ret mem])
    then have "Add_additional_packages Plan_packages (dict_get args ''packages'' (packages_default sc))
        \<in> set (fst (packages_step sc args))"
      using c by (auto simp: packages_step_def run_defs split: sum.splits if_splits)
    from Returned_step_event[OF ret mem this] show ?thesis by blast
  qed
  have A: "Add_additional_packages Plan_packages v \<in> set (fst (perform_installation sc e args mp)) \<longrightarrow>
      py_truthy (dict_get args ''packages'' PyNone) \<and>
      (\<exists>first. py_index0 (dict_get args ''packages'' PyNone) = Inr first \<and> first \<noteq> PyStr [])"
    using only_if by blast
  have B: "snd (perform_installation sc e args mp) = Returned \<longrightarrow>
        ((\<exists>pkgs. Add_additional_packages Plan_packages pkgs \<in> set (fst (perform_installation sc e args mp)))
         \<longleftrightarrow> py_truthy (dict_get args ''packages'' PyNone) \<and>
             py_index0 (dict_get args ''packages'' PyNone) \<noteq> Inr (PyStr []))"
  proof (rule impI, rule iffI)
    assume "\<exists>pkgs. Add_additional_packages Plan_packages pkgs \<in> set (fst (perform_installation sc e args mp))"
    then obtain pkgs where
      "Add_additional_packages Plan_packages pkgs \<in> set (fst (perform_installation sc e args mp))"
      by blast
    from only_if[OF this] show "py_truthy (dict_get args ''packages'' PyNone) \<and>
           py_index0 (dict_get args ''packages'' PyNone) \<noteq> Inr (PyStr [])"
      by auto
  next
    assume ret: "snd (perform_installation sc e args mp) = Returned"
      and c: "py_truthy (dict_get args ''packages'' PyNone) \<and>
           py_index0 (dict_get args ''packages'' PyNone) \<noteq> Inr (PyStr [])"
    from "if"[OF ret c]
    show "\<exists>pkgs. Add_additional_packages Plan_packages pkgs \<in> set (fst (perform_installation sc e args mp))" .
  qed
  from A B show ?thesis by (rule conjI)
qed

theorem additional_packages_iff_witness:
  "Add_additional_packages Plan_packages (PyList [PyStr ''vim''])
     \<in> set (fst (perform_installation Guided uefi_machine complete_plan (PyPath ''/mnt'')))
   \<and> snd (perform_installation Guided uefi_machine complete_plan (PyPath ''/mnt'')) = Returned
   \<and> py_truthy (dict_get complete_plan ''packages'' PyNone)
   \<and> py_index0 (dict_get complete_plan ''packages'' PyNone) = Inr (PyStr ''vim'')"
proof -
  have ev: "Add_additional_packages Plan_packages (PyList [PyStr ''vim''])
     \<in> set (fst (perform_installation Guided uefi_machine complete_plan (PyPath ''/mnt'')))"
    by (simp add: complete_plan_run)
  have ret: "snd (perform_installation Guided uefi_machine complete_plan (PyPath ''/mnt'')) = Returned"
    by (simp add: complete_plan_run)
  have pk: "dict_get complete_plan ''packages'' PyNone = PyList [PyStr ''vim'']"
    by (simp add: dict_get_def complete_plan_def)
  show ?thesis
    using ev ret pk
      additional_packages_iff[of "PyList [PyStr ''vim'']" Guided uefi_machine complete_plan "PyPath ''/mnt''"]
    by auto
qed

text \<open>Against C9 as stated: with the non-empty package list \<^verbatim>\<open>['']\<close> the run
  goes through and the package step is not part of it.\<close>

theorem empty_first_package_skips_step:
  "dict_get (complete_plan(''packages'' \<mapsto> PyList [PyStr []])) ''packages'' PyNone = PyList [PyStr []]
   \<and> PyList [PyStr []] \<noteq> PyList []
   \<and> perform_installation Guided uefi_machine (complete_plan(''packages'' \<mapsto> PyList [PyStr []])) (PyPath ''/mnt'') =
     ([Info ''Starting installation'',
       Installer_enter (PyPath ''/mnt'') (DiskLayoutConfiguration Fresh_layout) PyNone (PyList [PyStr ''linux'']),
       Mount_ordered_layout, Sanity_check,
       Minimal_installation False False (PyStr ''archlinux'') [''en_US UTF-8''],
       Add_additional_packages Bootloader_prerequisite (PyStr ''grub''),
       Add_bootloader (PyBootloader Grub),
       Info ''Installing audio server: none'',
       Install_profile_config ProfileConfiguration,
       Set_keyboard_language (PyStr ''us''), Profile_post_install, Genfstab,
       Info tips_message, Installer_exit, Debug ''Disk states after installing: ''],
      Returned)"
  by (simp add: eval_defs complete_plan_def uefi_machine_def bare_machine_def)

lemma audio_events_origin:
  "s \<in> set (installation_steps sc e args dc t m loc enc) \<Longrightarrow> ev \<in> set (fst s) \<Longrightarrow>
   (ev = PipewireProfile_install \<longrightarrow> dict_get args ''audio'' PyNone = PyStr ''pipewire'') \<and>
   (ev = Add_additional_packages Audio_server v \<longrightarrow> dict_get args ''audio'' PyNone = PyStr ''pulseaudio'') \<and>
   (ev = Info (no_audio_message sc) \<longrightarrow> \<not> py_truthy (dict_get args ''audio'' PyNone))"
  unfolding installation_steps_def
  apply (simp only: list.set insert_iff empty_iff)
  apply (elim disjE)
  apply (simp_all add: step_defs run_defs Let_def no_audio_message_def tips_message_def py_str_def
      split: sum.splits if_splits script.splits)
  apply auto
  done

text \<open>
  C10, as the code has it. With \<^verbatim>\<open>audio\<close> the string \<^verbatim>\<open>'none'\<close> the run logs
  "Installing audio server: none", installs neither pipewire nor pulseaudio and does
  not log the message for a missing audio server. That message is logged only if the
  value of \<^verbatim>\<open>audio\<close> is false in a condition (absent, \<^verbatim>\<open>None\<close>, or an empty
  or zero value such as the empty string), and in every run that is not cut short by
  an exception exactly then.
\<close>

theorem audio_none_branch:
  "(dict_get args ''audio'' PyNone = PyStr ''none'' \<longrightarrow>
      PipewireProfile_install \<notin> set (fst (perform_installation sc e args mp))
      \<and> (\<forall>v. Add_additional_packages Audio_server v \<notin> set (fst (perform_installation sc e args mp)))
      \<and> Info (no_audio_message sc) \<notin> set (fst (perform_installation sc e args mp))
      \<and> (snd (perform_installation sc e args mp) = Returned \<longrightarrow>
           Info ''Installing audio server: none'' \<in> set (fst (perform_installation sc e args mp))))
   \<and> (Info (no_audio_message sc) \<in> set (fst (perform_installation sc e args mp)) \<longrightarrow>
        \<not> py_truthy (dict_get args ''audio'' PyNone))
   \<and> (snd (perform_installation sc e args mp) = Returned \<longrightarrow>
        (Info (no_audio_message sc) \<in> set (fst (perform_installation sc e args mp))
         \<longleftrightarrow> \<not> py_truthy (dict_get args ''audio'' PyNone)))"
proof -
  have msg: "no_audio_message sc \<noteq> ''Starting installation''"
    by (cases sc) (simp_all add: no_audio_message_def)
  have mem: "audio_step sc e args
        \<in> set (installation_steps sc e args dc t m loc (dict_get args ''disk_encryption'' PyNone))" for dc t m loc
    by (simp add: installation_steps_def)
  have pipewire: "dict_get args ''audio'' PyNone = PyStr ''pipewire''"
    if "PipewireProfile_install \<in> set (fst (perform_installation sc e args mp))"
    using perform_installation_step_event[OF that] audio_events_origin by blast
  have pulse: "dict_get args ''audio'' PyNone = PyStr ''pulseaudio''"
    if "Add_additional_packages Audio_server v \<in> set (fst (perform_installation sc e args mp))" for v
    using perform_installation_step_event[OF that] audio_events_origin by blast
  have no_audio: "\<not> py_truthy (dict_get args ''audio'' PyNone)"
    if "Info (no_audio_message sc) \<in> set (fst (perform_installation sc e args mp))"
  proof -
    have "Info (no_audio_message sc) \<noteq> Info ''Starting installation''" using msg by simp
    from perform_installation_step_event[OF that this] show ?thesis
      using audio_events_origin by blast
  qed
  have installing: "Info ''Installing audio server: none'' \<in> set (fst (perform_installation sc e args mp))"
    if ret: "snd (perform_installation sc e args mp) = Returned"
      and a: "dict_get args ''audio'' PyNone = PyStr ''none''"
  proof (rule Returned_step_event[OF ret mem])
    show "Info ''Installing audio server: none'' \<in> set (fst (audio_step sc e args))"
      using a by (simp add: audio_step_def run_defs py_str_def)
  qed
  have emitted: "Info (no_audio_message sc) \<in> set (fst (perform_installation sc e args mp))"
    if ret: "snd (perform_installation sc e args mp) = Returned"
      and a: "\<not> py_truthy (dict_get args ''audio'' PyNone)"
  proof (rule Returned_step_event[OF ret mem])
    show "Info (no_audio_message sc) \<in> set (fst (audio_step sc e args))"
      using a by (simp add: audio_step_def run_defs)
  qed
  have A: "dict_get args ''audio'' PyNone = PyStr ''none'' \<longrightarrow>
      PipewireProfile_install \<notin> set (fst (perform_installation sc e args mp))
      \<and> (\<forall>v. Add_additional_packages Audio_server v \<notin> set (fst (perform_installation sc e args mp)))
      \<and> Info (no_audio_message sc) \<notin> set (fst (perform_installation sc e args mp))
      \<and> (snd (perform_installation sc e args mp) = Returned \<longrightarrow>
           Info ''Installing audio server: none'' \<in> set (fst (perform_installation sc e args mp)))"
  proof
    assume a: "dict_get args ''audio'' PyNone = PyStr ''none''"
    have 1: "PipewireProfile_install \<notin> set (fst (perform_installation sc e args mp))"
      using pipewire a by auto
    have 2: "\<forall>v. Add_additional_packages Audio_server v \<notin> set (fst (perform_installation sc e args mp))"
      using pulse a by auto
    have 3: "Info (no_audio_message sc) \<notin> set (fst (perform_installation sc e args mp))"
      using no_audio a by auto
    have 4: "snd (perform_installation sc e args mp) = Returned \<longrightarrow>
           Info ''Installing audio server: none'' \<in> set (fst (perform_installation sc e args mp))"
      using installing a by blast
    from 1 2 3 4 show "PipewireProfile_install \<notin> set (fst (perform_installation sc e args mp))
      \<and> (\<forall>v. Add_additional_packages Audio_server v \<notin> set (fst (perform_installation sc e args mp)))
      \<and> Info (no_audio_message sc) \<notin> set (fst (perform_installation sc e args mp))
      \<and> (snd (perform_installation sc e args mp) = Returned \<longrightarrow>
           Info ''Installing audio server: none'' \<in> set (fst (perform_installation sc e args mp)))"
      by blast
  qed
  have B: "Info (no_audio_message sc) \<in> set (fst (perform_installation sc e args mp)) \<longrightarrow>
        \<not> py_truthy (dict_get args ''audio'' PyNone)"
    using no_audio by blast
  have C: "snd (perform_installation sc e args mp) = Returned \<longrightarrow>
        (Info (no_audio_message sc) \<in> set (fst (perform_installation sc e args mp))
         \<longleftrightarrow> \<not> py_truthy (dict_get args ''audio'' PyNone))"
    using no_audio emitted by blast
  from A B C show ?thesis by blast
qed

lemma no_audio_plan_run:
  "perform_installation Guided uefi_machine (complete_plan(''audio'' := None)) (PyPath ''/mnt'') =
     ([Info ''Starting installation'',
       Installer_enter (PyPath ''/mnt'') (DiskLayoutConfiguration Fresh_layout) PyNone (PyList [PyStr ''linux'']),
       Mount_ordered_layout, Sanity_check,
       Minimal_installation False False (PyStr ''archlinux'') [''en_US UTF-8''],
       Add_additional_packages Bootloader_prerequisite (PyStr ''grub''),
       Add_bootloader (PyBootloader Grub),
       Add_additional_packages Plan_packages (PyList [PyStr ''vim'']),
       Info ''No audio server will be installed'',
       Install_profile_config ProfileConfiguration,
       Set_keyboard_language (PyStr ''us''), Profile_post_install, Genfstab,
       Info tips_message, Installer_exit, Debug ''Disk states after installing: ''],
      Returned)"
  by (simp add: eval_defs complete_plan_def uefi_machine_def bare_machine_def)

theorem audio_none_branch_witness:
  "dict_get complete_plan ''audio'' PyNone = PyStr ''none''
   \<and> snd (perform_installation Guided uefi_machine complete_plan (PyPath ''/mnt'')) = Returned
   \<and> Info ''Installing audio server: none''
        \<in> set (fst (perform_installation Guided uefi_machine complete_plan (PyPath ''/mnt'')))
   \<and> PipewireProfile_install
        \<notin> set (fst (perform_installation Guided uefi_machine complete_plan (PyPath ''/mnt'')))
   \<and> Info (no_audio_message Guided)
        \<notin> set (fst (perform_installation Guided uefi_machine complete_plan (PyPath ''/mnt'')))
   \<and> \<not> py_truthy (dict_get (complete_plan(''audio'' := None)) ''audio'' PyNone)
   \<and> snd (perform_installation Guided uefi_machine (complete_plan(''audio'' := None)) (PyPath ''/mnt''))
        = Returned
   \<and> Info (no_audio_message Guided)
        \<in> set (fst (perform_installation Guided uefi_machine (complete_plan(''audio'' := None))
              (PyPath ''/mnt'')))"
proof -
  have a: "dict_get complete_plan ''audio'' PyNone = PyStr ''none''"
    by (simp add: dict_get_def complete_plan_def)
  have ret: "snd (perform_installation Guided uefi_machine complete_plan (PyPath ''/mnt'')) = Returned"
    by (simp add: complete_plan_run)
  have b: "\<not> py_truthy (dict_get (complete_plan(''audio'' := None)) ''audio'' PyNone)"
    by (simp add: dict_get_def)
  have ret': "snd (perform_installation Guided uefi_machine (complete_plan(''audio'' := None))
       (PyPath ''/mnt'')) = Returned"
    by (simp add: no_audio_plan_run)
  show ?thesis
    using a ret b ret'
      audio_none_branch[of complete_plan Guided uefi_machine "PyPath ''/mnt''"]
      audio_none_branch[of "complete_plan(''audio'' := None)" Guided uefi_machine "PyPath ''/mnt''"]
    by blast
qed

text \<open>Against C10 as stated: with \<^verbatim>\<open>audio\<close> present and equal to the empty
  string (neither absent nor \<^verbatim>\<open>None\<close>) the message for a missing audio server is
  logged.\<close>

theorem empty_audio_logs_no_audio_message:
  "(complete_plan(''audio'' \<mapsto> PyStr [])) ''audio'' = Some (PyStr [])
   \<and> PyStr [] \<noteq> PyNone
   \<and> perform_installation Guided uefi_machine (complete_plan(''audio'' \<mapsto> PyStr [])) (PyPath ''/mnt'') =
     ([Info ''Starting installation'',
       Installer_enter (PyPath ''/mnt'') (DiskLayoutConfiguration Fresh_layout) PyNone (PyList [PyStr ''linux'']),
       Mount_ordered_layout, Sanity_check,
       Minimal_installation False False (PyStr ''archlinux'') [''en_US UTF-8''],
       Add_additional_packages Bootloader_prerequisite (PyStr ''grub''),
       Add_bootloader (PyBootloader Grub),
       Add_additional_packages Plan_packages (PyList [PyStr ''vim'']),
       Info ''No audio server will be installed'',
       Install_profile_config ProfileConfiguration,
       Set_keyboard_language (PyStr ''us''), Profile_post_install, Genfstab,
       Info tips_message, Installer_exit, Debug ''Disk states after installing: ''],
      Returned)"
  by (simp add: eval_defs complete_plan_def uefi_machine_def bare_machine_def)

lemma strictly_before_split:
  "tr = pre @ b # post \<Longrightarrow> b \<notin> set pre \<Longrightarrow> a \<in> set pre \<Longrightarrow> a \<notin> set (b # post)
     \<Longrightarrow> strictly_before a b tr"
proof -
  assume tr: "tr = pre @ b # post" and b: "b \<notin> set pre" and a: "a \<in> set pre"
    and a': "a \<notin> set (b # post)"
  have "takeWhile (\<lambda>x. x \<noteq> b) (pre @ b # post) = pre"
    using b by (induction pre) auto
  moreover have "dropWhile (\<lambda>x. x \<noteq> b) (pre @ b # post) = b # post"
    using b by (induction pre) auto
  ultimately show ?thesis using tr a a' by (simp add: strictly_before_def)
qed

lemma run_steps_reach:
  assumes "ev \<in> set (fst (run_steps (A @ st # C)))"
    and "\<forall>s\<in>set A. ev \<notin> set (fst s)"
    and "\<forall>s\<in>set C. ev \<notin> set (fst s)"
  shows "ev \<in> set (fst st) \<and> (\<forall>s\<in>set A. snd s = Returned) \<and>
         fst (run_steps (A @ st # C)) = concat (map fst A) @ fst (then_run st (run_steps C))"
proof -
  have eq: "run_steps (A @ st # C) = then_run (run_steps A) (then_run st (run_steps C))"
    by (simp add: run_steps_append)
  have notA: "ev \<notin> set (fst (run_steps A))"
    using assms(2) run_steps_events by blast
  have notC: "ev \<notin> set (fst (run_steps C))"
    using assms(3) run_steps_events by blast
  have ret: "snd (run_steps A) = Returned"
  proof (rule ccontr)
    assume "snd (run_steps A) \<noteq> Returned"
    then have "then_run (run_steps A) (then_run st (run_steps C)) = run_steps A"
      by (simp add: then_run_def split: outcome.splits)
    then show False using assms(1) eq notA by simp
  qed
  then have tr: "fst (run_steps (A @ st # C)) = fst (run_steps A) @ fst (then_run st (run_steps C))"
    using eq by (simp add: then_run_def)
  then have "ev \<in> set (fst (then_run st (run_steps C)))"
    using assms(1) notA by simp
  then have "ev \<in> set (fst st)"
    using notC then_run_events by blast
  then show ?thesis using run_steps_Returned[OF ret] tr by simp
qed

lemma profile_install_not_after_keyboard:
  "s \<in> set [post_install_step args, services_step args, custom_commands_step args,
        call Genfstab, call (Info tips_message), chroot_step e args] \<Longrightarrow>
   Install_profile_config pc \<notin> set (fst s) \<and> Set_keyboard_language k \<notin> set (fst s)"
  apply (simp only: list.set insert_iff empty_iff)
  apply (elim disjE)
  apply (simp_all add: step_defs run_defs Let_def split: sum.splits if_splits)
  done

lemma keyboard_not_before_keyboard_step:
  "s \<in> set [mount_step dc, call Sanity_check, key_files_step dc enc, use_mirrors_step args,
        minimal_installation_step args t m loc, set_mirrors_step args, swap_step args,
        bootloader_prerequisite_step e args, add_bootloader_step args, network_step args,
        packages_step sc args, users_step args, audio_step sc e args, profile_step args,
        timezone_step args, ntp_step args, espeakup_step e, root_password_step args] \<Longrightarrow>
   Set_keyboard_language k \<notin> set (fst s)"
  apply (simp only: list.set insert_iff empty_iff)
  apply (elim disjE)
  apply (simp_all add: step_defs run_defs Let_def split: sum.splits if_splits)
  done

text \<open>
  C3. In \<^verbatim>\<open>perform_installation\<close> of both scripts, when the plan has a profile
  configuration, every run that reaches \<^verbatim>\<open>set_keyboard_language\<close> has installed the
  profile before it, and does not install it at or after that step.
\<close>

theorem keyboard_after_profile:
  assumes profile: "py_truthy (dict_get args ''profile_config'' PyNone)"
    and reached: "Set_keyboard_language layout \<in> set (fst (perform_installation sc e args mp))"
  shows "strictly_before (Install_profile_config (dict_get args ''profile_config'' PyNone))
           (Set_keyboard_language layout) (fst (perform_installation sc e args mp))"
proof -
  from perform_installation_shape[of sc e args mp] show ?thesis
  proof (elim disjE exE conjE)
    fix err assume "perform_installation sc e args mp = ([Info ''Starting installation''], Raised err)"
    then show ?thesis using reached by simp
  next
    fix dc t m loc
    let ?enc = "dict_get args ''disk_encryption'' PyNone"
    let ?steps = "installation_steps sc e args dc t m loc ?enc"
    let ?A = "[mount_step dc, call Sanity_check, key_files_step dc ?enc, use_mirrors_step args,
        minimal_installation_step args t m loc, set_mirrors_step args, swap_step args,
        bootloader_prerequisite_step e args, add_bootloader_step args, network_step args,
        packages_step sc args, users_step args, audio_step sc e args, profile_step args,
        timezone_step args, ntp_step args, espeakup_step e, root_password_step args]"
    let ?C = "[post_install_step args, services_step args, custom_commands_step args,
        call Genfstab, call (Info tips_message), chroot_step e args]"
    let ?kb = "Set_keyboard_language layout"
    let ?pi = "Install_profile_config (dict_get args ''profile_config'' PyNone)"
    assume tr: "fst (perform_installation sc e args mp) =
          Info ''Starting installation''
          # Installer_enter mp dc ?enc (dict_get args ''kernels'' (PyList [PyStr ''linux'']))
          # fst (run_steps ?steps)
          @ Installer_exit
          # (if snd (run_steps ?steps) = Returned
             then [Debug (''Disk states after installing: '' @ disk_layouts e)] else [])"
    have split: "?steps = ?A @ keyboard_step args # ?C"
      by (simp add: installation_steps_def)
    have in_steps: "?kb \<in> set (fst (run_steps (?A @ keyboard_step args # ?C)))"
      using reached tr split by (auto split: if_splits)
    have notA: "\<forall>s\<in>set ?A. ?kb \<notin> set (fst s)"
      using keyboard_not_before_keyboard_step by blast
    have notC: "\<forall>s\<in>set ?C. ?kb \<notin> set (fst s)"
      using profile_install_not_after_keyboard by blast
    from run_steps_reach[OF in_steps notA notC]
    have kb: "?kb \<in> set (fst (keyboard_step args))"
      and body: "fst (run_steps ?steps) = concat (map fst ?A) @ fst (then_run (keyboard_step args) (run_steps ?C))"
      using split by simp_all
    have kstep: "keyboard_step args = call ?kb"
      using kb by (simp add: keyboard_step_def run_defs split: sum.splits)
    have body': "fst (run_steps ?steps) = concat (map fst ?A) @ ?kb # fst (run_steps ?C)"
      using body kstep by (simp add: run_defs)
    define pre where "pre = Info ''Starting installation''
          # Installer_enter mp dc ?enc (dict_get args ''kernels'' (PyList [PyStr ''linux'']))
          # concat (map fst ?A)"
    define post where "post = fst (run_steps ?C) @ Installer_exit
          # (if snd (run_steps ?steps) = Returned
             then [Debug (''Disk states after installing: '' @ disk_layouts e)] else [])"
    have whole: "fst (perform_installation sc e args mp) = pre @ ?kb # post"
      using tr body' by (simp add: pre_def post_def)
    have kb_pre: "?kb \<notin> set pre"
      using notA by (auto simp: pre_def)
    have "?pi \<in> set (fst (profile_step args))"
      using profile by (simp add: profile_step_def run_defs)
    then have pi_pre: "?pi \<in> set pre"
      by (simp add: pre_def)
    have "?pi \<notin> set (fst (run_steps ?C))"
      using profile_install_not_after_keyboard run_steps_events by blast
    then have pi_post: "?pi \<notin> set (?kb # post)"
      by (auto simp: post_def)
    show ?thesis
      by (rule strictly_before_split[OF whole kb_pre pi_pre pi_post])
  qed
qed

theorem keyboard_after_profile_witness:
  "py_truthy (dict_get complete_plan ''profile_config'' PyNone)
   \<and> Set_keyboard_language (PyStr ''us'')
       \<in> set (fst (perform_installation Guided uefi_machine complete_plan (PyPath ''/mnt'')))
   \<and> strictly_before (Install_profile_config ProfileConfiguration) (Set_keyboard_language (PyStr ''us''))
       (fst (perform_installation Guided uefi_machine complete_plan (PyPath ''/mnt'')))"
proof -
  have p: "dict_get complete_plan ''profile_config'' PyNone = ProfileConfiguration"
    by (simp add: dict_get_def complete_plan_def)
  have k: "Set_keyboard_language (PyStr ''us'')
       \<in> set (fst (perform_installation Guided uefi_machine complete_plan (PyPath ''/mnt'')))"
    by (simp add: complete_plan_run)
  show ?thesis
    using p k keyboard_after_profile[of complete_plan "PyStr ''us''" Guided uefi_machine "PyPath ''/mnt''"]
    by simp
qed

subsection \<open>The script body\<close>

lemmas guided_defs = mirror_check_gate_def gather_def ask_user_questions_def config_output_step_def
  dry_run_gate_def press_enter_step_def filesystem_step_def perform_filesystem_operations_def

lemma prelude_events:
  "s \<in> set [mirror_check_gate e args, (fst (gather e args), Returned),
        config_output_step plan, dry_run_gate plan, press_enter_step plan] \<Longrightarrow>
   ev \<in> set (fst s) \<Longrightarrow>
   ev = Check_mirror_reachable (mirror_reachable e) \<or> (\<exists>log_file. ev = Info (unreachable_message log_file))
   \<or> ev = GlobalMenu_run (menu_items args) \<or> ev = ConfigurationOutput_show
   \<or> ev = ConfigurationOutput_save \<or> ev = Input_prompt ''Press Enter to continue.''"
  apply (simp only: list.set insert_iff empty_iff)
  apply (elim disjE)
  apply (simp_all add: guided_defs run_defs split: sum.splits if_splits)
  apply auto
  done

lemma filesystem_step_events:
  "ev \<in> set (fst (filesystem_step plan)) \<Longrightarrow>
   (\<exists>dc. dict_index plan ''disk_config'' = Inr dc \<and>
      (ev = Perform_filesystem_operations dc (dict_get plan ''disk_encryption'' PyNone)
       \<or> (ev = Partition_and_format \<and> config_type dc \<noteq> Inr Pre_mount)))"
  by (auto simp: guided_defs run_defs split: sum.splits if_splits)

lemma installation_step_events:
  "s \<in> set (installation_steps sc e args dc t m loc enc) \<Longrightarrow> ev \<in> set (fst s) \<Longrightarrow>
   ev \<noteq> Check_mirror_reachable b \<and> ev \<noteq> Partition_and_format \<and> ev \<noteq> GlobalMenu_run items
   \<and> ev \<noteq> ConfigurationOutput_save \<and> ev \<noteq> ConfigurationOutput_show
   \<and> (ev = Mount_ordered_layout \<longrightarrow> (\<exists>ty. config_type dc = Inr ty \<and> ty \<noteq> Pre_mount))"
  unfolding installation_steps_def
  apply (simp only: list.set insert_iff empty_iff)
  apply (elim disjE)
  apply (simp_all add: step_defs run_defs Let_def split: sum.splits if_splits)
  apply auto
  done

lemma perform_installation_events:
  assumes "ev \<in> set (fst (perform_installation sc e args mp))"
  shows "ev \<noteq> Check_mirror_reachable b \<and> ev \<noteq> Partition_and_format \<and> ev \<noteq> GlobalMenu_run items
   \<and> ev \<noteq> ConfigurationOutput_save \<and> ev \<noteq> ConfigurationOutput_show
   \<and> (ev = Mount_ordered_layout \<longrightarrow>
        (\<exists>dc ty. dict_index args ''disk_config'' = Inr dc \<and> config_type dc = Inr ty \<and> ty \<noteq> Pre_mount))"
proof (cases "ev = Info ''Starting installation'' \<or> (\<exists>a b c d. ev = Installer_enter a b c d)
    \<or> ev = Installer_exit \<or> (\<exists>msg. ev = Debug msg)")
  case True
  then show ?thesis by auto
next
  case False
  then have "\<exists>dc t m loc. dict_index args ''disk_config'' = Inr dc \<and>
           (\<exists>s\<in>set (installation_steps sc e args dc t m loc (dict_get args ''disk_encryption'' PyNone)).
              ev \<in> set (fst s))"
    using perform_installation_step_event[OF assms] by blast
  then obtain dc t m loc s where dc: "dict_index args ''disk_config'' = Inr dc"
    and s: "s \<in> set (installation_steps sc e args dc t m loc (dict_get args ''disk_encryption'' PyNone))"
    and ev: "ev \<in> set (fst s)"
    by blast
  from installation_step_events[OF s ev, of b items] show ?thesis using dc by blast
qed

lemma guided_events:
  assumes "ev \<in> set (fst (guided e args))"
  shows "ev = Print help_message
    \<or> (\<exists>s\<in>set [mirror_check_gate e args, (fst (gather e args), Returned),
        config_output_step (plan_of e args), dry_run_gate (plan_of e args),
        press_enter_step (plan_of e args)]. ev \<in> set (fst s))
    \<or> ev \<in> set (fst (filesystem_step (plan_of e args)))
    \<or> ev \<in> set (fst (perform_installation Guided e (plan_of e args)
             (dict_get (storage e) ''MOUNT_POINT'' (PyPath ''/mnt''))))"
proof (cases "py_truthy (dict_get args ''help'' PyNone)")
  case True
  then show ?thesis using assms by (simp add: guided_def run_defs)
next
  case False
  then have "ev \<in> set (fst (run_steps
          [mirror_check_gate e args,
           (fst (gather e args), Returned),
           config_output_step (plan_of e args),
           dry_run_gate (plan_of e args),
           press_enter_step (plan_of e args),
           filesystem_step (plan_of e args),
           perform_installation Guided e (plan_of e args)
             (dict_get (storage e) ''MOUNT_POINT'' (PyPath ''/mnt''))]))"
    using assms by (simp add: guided_def)
  from run_steps_events[OF this] show ?thesis
    by (simp only: list.set insert_iff empty_iff bex_simps) blast
qed

text \<open>
  C5. When the plan's disk configuration is pre-mounted, no run of the guided script
  partitions or formats and none mounts the target layout, whatever the other fields of
  the plan and the machine are. The script still calls
  \<^verbatim>\<open>perform_filesystem_operations\<close>; that the call then does nothing is the
  behaviour of that function as the spec gives it.
\<close>

theorem pre_mounted_skips_filesystem_and_mount:
  assumes "plan_of e args ''disk_config'' = Some (DiskLayoutConfiguration Pre_mount)"
  shows "Partition_and_format \<notin> set (fst (guided e args))
       \<and> Mount_ordered_layout \<notin> set (fst (guided e args))"
proof -
  have dc: "dict_index (plan_of e args) ''disk_config'' = Inr (DiskLayoutConfiguration Pre_mount)"
    using assms by (simp add: dict_index_def)
  have no: "ev \<notin> set (fst (guided e args))"
    if ev: "ev = Partition_and_format \<or> ev = Mount_ordered_layout" for ev
  proof
    assume "ev \<in> set (fst (guided e args))"
    from guided_events[OF this] show False
    proof (elim disjE bexE)
      assume "ev = Print help_message"
      then show False using ev by auto
    next
      fix s
      assume "s \<in> set [mirror_check_gate e args, (fst (gather e args), Returned),
        config_output_step (plan_of e args), dry_run_gate (plan_of e args),
        press_enter_step (plan_of e args)]" and "ev \<in> set (fst s)"
      from prelude_events[OF this] show False using ev by auto
    next
      assume "ev \<in> set (fst (filesystem_step (plan_of e args)))"
      from filesystem_step_events[OF this] show False using ev dc by auto
    next
      assume "ev \<in> set (fst (perform_installation Guided e (plan_of e args)
             (dict_get (storage e) ''MOUNT_POINT'' (PyPath ''/mnt''))))"
      from perform_installation_events[OF this, of True "[]"] show False using ev dc by auto
    qed
  qed
  show ?thesis using no by blast
qed

lemma then_run_Returned: "snd r = Returned \<Longrightarrow> then_run r k = (fst r @ fst k, snd k)"
  by (simp add: then_run_def)

lemma then_run_not_Returned: "snd r \<noteq> Returned \<Longrightarrow> then_run r k = r"
  by (simp add: then_run_def split: outcome.splits)

lemmas guided_eval_defs = guided_def plan_of_def guided_defs menu_items_def unreachable_message_def
  path_join_def

lemma pre_mounted_plan_run:
  "guided uefi_machine pre_mounted_plan =
     ([Check_mirror_reachable True, ConfigurationOutput_save,
       Perform_filesystem_operations (DiskLayoutConfiguration Pre_mount) PyNone,
       Info ''Starting installation'',
       Installer_enter (PyPath ''/mnt'') (DiskLayoutConfiguration Pre_mount) PyNone (PyList [PyStr ''linux'']),
       Sanity_check,
       Minimal_installation False False (PyStr ''archlinux'') [''en_US UTF-8''],
       Add_additional_packages Bootloader_prerequisite (PyStr ''grub''),
       Add_bootloader (PyBootloader Grub),
       Add_additional_packages Plan_packages (PyList [PyStr ''vim'']),
       Info ''Installing audio server: none'',
       Install_profile_config ProfileConfiguration,
       Set_keyboard_language (PyStr ''us''), Profile_post_install, Genfstab,
       Info tips_message, Installer_exit, Debug ''Disk states after installing: ''],
      Returned)"
  by (simp add: guided_eval_defs eval_defs pre_mounted_plan_def complete_plan_def uefi_machine_def
      bare_machine_def)

theorem pre_mounted_skips_filesystem_and_mount_witness:
  "plan_of uefi_machine pre_mounted_plan ''disk_config'' = Some (DiskLayoutConfiguration Pre_mount)
   \<and> snd (guided uefi_machine pre_mounted_plan) = Returned
   \<and> Sanity_check \<in> set (fst (guided uefi_machine pre_mounted_plan))
   \<and> Partition_and_format \<notin> set (fst (guided uefi_machine pre_mounted_plan))
   \<and> Mount_ordered_layout \<notin> set (fst (guided uefi_machine pre_mounted_plan))"
proof -
  have h: "plan_of uefi_machine pre_mounted_plan ''disk_config'' = Some (DiskLayoutConfiguration Pre_mount)"
    by (simp add: plan_of_def gather_def dict_get_def pre_mounted_plan_def complete_plan_def)
  have r: "snd (guided uefi_machine pre_mounted_plan) = Returned
      \<and> Sanity_check \<in> set (fst (guided uefi_machine pre_mounted_plan))"
    by (simp add: pre_mounted_plan_run)
  show ?thesis
    using h r pre_mounted_skips_filesystem_and_mount[OF h] by simp
qed

text \<open>
  C1, as the code has it. When the plan has \<^verbatim>\<open>dry_run\<close> set, no run of the guided
  script invokes a step that changes the target; and when help was not asked for and
  the mirror check is skipped or succeeds, the process exits with code 0 and the last
  thing it did was to save the configuration.
\<close>

theorem dry_run_exits_after_save:
  assumes "py_truthy (dict_get (plan_of e args) ''dry_run'' PyNone)"
  shows "(\<forall>ev\<in>set (fst (guided e args)). \<not> filesystem_mutating ev)
       \<and> (\<not> py_truthy (dict_get args ''help'' PyNone)
          \<and> (dict_get args ''skip-mirror-check'' (PyBool False) \<noteq> PyBool False \<or> mirror_reachable e)
          \<longrightarrow> snd (guided e args) = Exited 0 \<and> exit_code (snd (guided e args)) = 0
              \<and> fst (guided e args) \<noteq> [] \<and> last (fst (guided e args)) = ConfigurationOutput_save)"
proof -
  have stop: "run_steps
          [mirror_check_gate e args,
           (fst (gather e args), Returned),
           config_output_step (plan_of e args),
           dry_run_gate (plan_of e args),
           press_enter_step (plan_of e args),
           filesystem_step (plan_of e args),
           perform_installation Guided e (plan_of e args)
             (dict_get (storage e) ''MOUNT_POINT'' (PyPath ''/mnt''))]
      = then_run (mirror_check_gate e args)
          (fst (gather e args) @ fst (config_output_step (plan_of e args)), Exited 0)"
  proof -
    have d: "dry_run_gate (plan_of e args) = ([], Exited 0)"
      using assms by (simp add: dry_run_gate_def py_exit_def)
    have c: "snd (config_output_step (plan_of e args)) = Returned"
      by (simp add: config_output_step_def run_defs)
    show ?thesis
      by (simp add: d c then_run_Returned then_run_not_Returned)
  qed
  have A: "\<forall>ev\<in>set (fst (guided e args)). \<not> filesystem_mutating ev"
  proof
    fix ev assume ev: "ev \<in> set (fst (guided e args))"
    show "\<not> filesystem_mutating ev"
    proof (cases "py_truthy (dict_get args ''help'' PyNone)")
      case True
      then show ?thesis using ev by (simp add: guided_def run_defs)
    next
      case False
      then have "ev \<in> set (fst (then_run (mirror_check_gate e args)
          (fst (gather e args) @ fst (config_output_step (plan_of e args)), Exited 0)))"
        using ev stop by (simp add: guided_def)
      then have "ev \<in> set (fst (mirror_check_gate e args)) \<or> ev \<in> set (fst (gather e args))
          \<or> ev \<in> set (fst (config_output_step (plan_of e args)))"
        using then_run_events by fastforce
      then have "\<exists>s\<in>set [mirror_check_gate e args, (fst (gather e args), Returned),
          config_output_step (plan_of e args), dry_run_gate (plan_of e args),
          press_enter_step (plan_of e args)]. ev \<in> set (fst s)"
        by auto
      then obtain s where "s \<in> set [mirror_check_gate e args, (fst (gather e args), Returned),
          config_output_step (plan_of e args), dry_run_gate (plan_of e args),
          press_enter_step (plan_of e args)]" and "ev \<in> set (fst s)"
        by blast
      from prelude_events[OF this] show ?thesis by auto
    qed
  qed
  have B: "snd (guided e args) = Exited 0 \<and> exit_code (snd (guided e args)) = 0
              \<and> fst (guided e args) \<noteq> [] \<and> last (fst (guided e args)) = ConfigurationOutput_save"
    if h: "\<not> py_truthy (dict_get args ''help'' PyNone)"
      and g: "dict_get args ''skip-mirror-check'' (PyBool False) \<noteq> PyBool False \<or> mirror_reachable e"
  proof -
    have gate: "snd (mirror_check_gate e args) = Returned"
      using g by (auto simp: mirror_check_gate_def run_defs)
    have "guided e args = (fst (mirror_check_gate e args) @ fst (gather e args)
         @ fst (config_output_step (plan_of e args)), Exited 0)"
      using h stop gate by (simp add: guided_def then_run_def)
    moreover have "fst (config_output_step (plan_of e args)) \<noteq> []
        \<and> last (fst (config_output_step (plan_of e args))) = ConfigurationOutput_save"
      by (simp add: config_output_step_def run_defs)
    ultimately show ?thesis by simp
  qed
  show ?thesis using A B by blast
qed

theorem dry_run_exits_after_save_witness:
  "py_truthy (dict_get (plan_of uefi_machine dry_run_plan) ''dry_run'' PyNone)
   \<and> \<not> py_truthy (dict_get dry_run_plan ''help'' PyNone)
   \<and> mirror_reachable uefi_machine
   \<and> guided uefi_machine dry_run_plan = ([Check_mirror_reachable True, ConfigurationOutput_save], Exited 0)
   \<and> exit_code (snd (guided uefi_machine dry_run_plan)) = 0
   \<and> last (fst (guided uefi_machine dry_run_plan)) = ConfigurationOutput_save"
proof -
  have h1: "py_truthy (dict_get (plan_of uefi_machine dry_run_plan) ''dry_run'' PyNone)"
    by (simp add: plan_of_def gather_def dict_get_def dry_run_plan_def complete_plan_def)
  have h2: "\<not> py_truthy (dict_get dry_run_plan ''help'' PyNone)"
    by (simp add: dict_get_def dry_run_plan_def complete_plan_def)
  have h3: "mirror_reachable uefi_machine"
    by (simp add: uefi_machine_def)
  have run: "guided uefi_machine dry_run_plan
      = ([Check_mirror_reachable True, ConfigurationOutput_save], Exited 0)"
    by (simp add: guided_eval_defs run_defs dict_get_def dry_run_plan_def
        complete_plan_def uefi_machine_def bare_machine_def)
  show ?thesis
    using h1 h2 h3 run dry_run_exits_after_save[OF h1] by simp
qed

text \<open>Against C1 as stated: a dry run on a machine whose mirrors are unreachable ends
  at the mirror check with exit code 1, before the configuration is saved.\<close>

theorem dry_run_with_unreachable_mirrors_exits_1:
  "py_truthy (dict_get (plan_of offline_machine dry_run_plan) ''dry_run'' PyNone)
   \<and> guided offline_machine dry_run_plan
       = ([Check_mirror_reachable False,
           Info (unreachable_message ''/var/log/archinstall/install.log'')], Exited 1)
   \<and> exit_code (snd (guided offline_machine dry_run_plan)) = 1"
  by (simp add: guided_eval_defs run_defs dict_get_def dry_run_plan_def complete_plan_def
      offline_machine_def bare_machine_def)




end
